theory Spec2Isabelle
  imports Complex_Main
begin

section \<open>Data model\<close>

text \<open>
  The collision resolver exists in two near-identical copies:
  \<^verbatim>\<open>rebound/MarsRing/fragmentation/problem.c\<close> and
  \<^verbatim>\<open>rebound/MarsRing/mars_shearing_sheet/problem.c\<close>. They differ only inside
  \<^verbatim>\<open>add_fragments\<close> (three assertions, the wrap of new bodies into the periodic box,
  and the test for a failed lookup). One embedding serves both; the copy is a parameter.

  The two copies also print the names of the new bodies with different calls. The
  shearing-sheet copy uses \<^verbatim>\<open>snprintf(hash, sizeof(hash), "FRAG%d", ...)\<close> throughout.
  The fragmentation copy writes the first call, the one for the second-largest remnant,
  as \<^verbatim>\<open>snprintf(hash,"FRAG%d", tot_no_frags+1)\<close>: the size is missing, the format
  the function is given is the integer, and the call faults. For the lookup of the last
  loop it prints the name with \<^verbatim>\<open>sprintf\<close> into \<^verbatim>\<open>char frag[10]\<close>, which a
  name of more than nine characters overruns. Both are outcomes of the embedding.

  A C \<^verbatim>\<open>double\<close> is a \<^typ>\<open>real\<close>: all arithmetic is exact, and there is neither
  NaN nor infinity. Where the program tests such a value (the impact parameter) the test
  is written out. Where it writes one into a body (a direction of the collision plane
  that is \<open>0/0\<close>, the square root of a negative number) the embedding returns
  \<open>Not_finite\<close> and does not follow the program further. Every other quotient by zero
  needs a body without mass or without radius, or a box without extent; there the
  quotient has HOL's value \<open>0\<close>, and the theorems assume positive masses and radii.

  A C \<^verbatim>\<open>int\<close> has 32 bits. C leaves signed overflow and the conversion of a
  \<^verbatim>\<open>double\<close> out of range undefined; the embedding takes what the program compiled
  for x86-64 does: a sum wraps modulo \<open>2^32\<close>, and the conversion gives \<open>INT_MIN\<close>.
\<close>

datatype variant = Fragmentation | Shearing_Sheet

text \<open>
  A body's \<^verbatim>\<open>hash\<close> is REBOUND's \<^verbatim>\<open>reb_hash\<close> of a name. The hash function
  belongs to the library, so an identifier is modelled by the name it is the hash of:
  \<open>FRAG i\<close> stands for \<^verbatim>\<open>reb_hash("FRAG<i>")\<close>, \<open>NAMED k\<close> for any other name.
\<close>

datatype ident = FRAG int | NAMED nat

record reb_particle =
  x :: real
  y :: real
  z :: real
  vx :: real
  vy :: real
  vz :: real
  ax :: real
  ay :: real
  az :: real
  m :: real
  r :: real
  last_collision :: real
  hash :: ident

record reb_collision =
  p1 :: nat
  p2 :: nat

text \<open>One line of \<^verbatim>\<open>collision_report.txt\<close>, as \<^verbatim>\<open>print_collision_array\<close> writes it.\<close>

record report_line =
  rep_time :: real
  rep_type :: int
  rep_target_hash :: ident
  rep_target_mass :: real
  rep_projectile_hash :: ident
  rep_fragments :: "(ident \<times> real) list"

text \<open>
  The state: the fields of \<^verbatim>\<open>struct reb_simulation\<close> the resolver reads or writes,
  the two globals \<^verbatim>\<open>min_frag_mass\<close> and \<^verbatim>\<open>tot_no_frags\<close>, and the lines appended
  to the report file.
\<close>

record sim_state =
  G :: real
  t :: real
  particles :: "reb_particle list"
  boxsize_x :: real
  boxsize_y :: real
  min_frag_mass :: real
  tot_no_frags :: int
  collision_report :: "report_line list"

record collision_params =
  target :: nat
  projectile :: nat
  dx :: real
  dy :: real
  dz :: real
  b :: real
  Vix :: real
  Viy :: real
  Viz :: real
  Vi :: real
  l :: real
  rho1 :: real
  cstar :: real
  mu :: real
  QR :: real
  QpRD :: real
  V_esc :: real
  separation_distance :: real
  Mlr :: real
  Mslr :: real
  Q :: real
  Mlr_dag :: real
  Q_star :: real
  vrel :: real
  xrel :: real
  collision_type :: int
  no_frags :: int

text \<open>
  The ways a call stops the run instead of returning: the exit on an impact parameter
  that is NaN, the three assertions, a null pointer that is dereferenced, the call of
  \<^verbatim>\<open>snprintf\<close> without the size, a name written past its buffer. \<open>Not_finite\<close> is
  of another kind: the program goes on with a NaN or an infinity in the particle array.
\<close>

datatype abort =
  NaN_b
  | Assert_min_frag_mass
  | Assert_remaining_mass
  | Assert_no_frags
  | Null_pointer
  | Bad_format_call
  | Buffer_overrun
  | Not_finite

section \<open>Vector and geometry utilities\<close>

text \<open>The macros \<^verbatim>\<open>MIN\<close> and \<^verbatim>\<open>MAX\<close> (both names are taken in HOL, hence the suffix).\<close>

definition MIN_macro :: "real \<Rightarrow> real \<Rightarrow> real" where
  "MIN_macro a c = (if a > c then c else a)"

definition MAX_macro :: "real \<Rightarrow> real \<Rightarrow> real" where
  "MAX_macro a c = (if a > c then a else c)"

definition make_vector ::
  "real \<Rightarrow> real \<Rightarrow> real \<Rightarrow> real \<Rightarrow> real \<Rightarrow> real \<Rightarrow> real \<times> real \<times> real" where
  "make_vector x1 y1 z1 x2 y2 z2 = (x1 - x2, y1 - y2, z1 - z2)"

definition get_dot :: "real \<Rightarrow> real \<Rightarrow> real \<Rightarrow> real \<Rightarrow> real \<Rightarrow> real \<Rightarrow> real" where
  "get_dot x1 y1 z1 x2 y2 z2 = (x1 * x2) + (y1 * y2) + (z1 * z2)"

definition get_mag :: "real \<Rightarrow> real \<Rightarrow> real \<Rightarrow> real" where
  "get_mag u1 u2 u3 = sqrt (u1 ^ 2 + u2 ^ 2 + u3 ^ 2)"

text \<open>
  \<^verbatim>\<open>pow\<close> with a fractional exponent is \<open>powr\<close>. They agree on a positive base; on
  a negative base C returns NaN and \<open>powr\<close> the power of the absolute value.
\<close>

definition get_radii :: "real \<Rightarrow> real \<Rightarrow> real" where
  "get_radii ma rho = ((3 * ma) / (4 * pi * rho)) powr (1 / 3)"

text \<open>
  The density of a body, as \<^verbatim>\<open>add_fragments\<close> computes it for the target:
  \<^verbatim>\<open>target->m/(4./3*M_PI*pow(target ->r, 3))\<close>.
\<close>

definition density_of :: "reb_particle \<Rightarrow> real" where
  "density_of q = m q / (4 / 3 * pi * (r q) ^ 3)"

text \<open>
  The conversion of a \<^verbatim>\<open>double\<close> to \<^verbatim>\<open>int\<close> truncates toward zero. A value
  that does not fit is converted to \<open>INT_MIN\<close> (the result of the conversion
  instruction of x86-64 for every operand out of range, for an infinity and for NaN).
  Sums and differences of \<^verbatim>\<open>int\<close> wrap.
\<close>

definition trunc :: "real \<Rightarrow> int" where
  "trunc q = (if q < 0 then \<lceil>q\<rceil> else \<lfloor>q\<rfloor>)"

definition INT_MIN :: int where
  "INT_MIN = - 2147483648"

definition INT_MAX :: int where
  "INT_MAX = 2147483647"

definition double_to_int :: "real \<Rightarrow> int" where
  "double_to_int q = (if INT_MIN \<le> trunc q \<and> trunc q \<le> INT_MAX then trunc q else INT_MIN)"

definition wrap_int :: "int \<Rightarrow> int" where
  "wrap_int k = (k + 2147483648) mod 4294967296 - 2147483648"

text \<open>
  Two functions of the REBOUND library that the resolver calls. Neither is part of this
  repository. \<open>reb_particle_com_of_pair\<close> returns the centre of mass of two bodies
  (the sum of the masses, the mass-weighted mean of positions and velocities);
  \<open>reb_simulation_particle_by_hash\<close> finds a body by its identifier and returns no
  body (a null pointer) when there is none.
\<close>

definition reb_particle_com_of_pair :: "reb_particle \<Rightarrow> reb_particle \<Rightarrow> reb_particle" where
  "reb_particle_com_of_pair q1 q2 =
     q1\<lparr>x := (x q1 * m q1 + x q2 * m q2) / (m q1 + m q2),
        y := (y q1 * m q1 + y q2 * m q2) / (m q1 + m q2),
        z := (z q1 * m q1 + z q2 * m q2) / (m q1 + m q2),
        vx := (vx q1 * m q1 + vx q2 * m q2) / (m q1 + m q2),
        vy := (vy q1 * m q1 + vy q2 * m q2) / (m q1 + m q2),
        vz := (vz q1 * m q1 + vz q2 * m q2) / (m q1 + m q2),
        m := m q1 + m q2\<rparr>"

primrec reb_simulation_particle_by_hash :: "reb_particle list \<Rightarrow> ident \<Rightarrow> nat option" where
  "reb_simulation_particle_by_hash [] h = None"
| "reb_simulation_particle_by_hash (q # qs) h =
     (if hash q = h then Some 0 else map_option Suc (reb_simulation_particle_by_hash qs h))"

section \<open>The merge operator\<close>

text \<open>
  \<^verbatim>\<open>merge\<close> writes the target's fields one after the other, and each statement reads
  the array as the statements before it left it. \<open>assign i j stmt\<close> is one such
  statement: it reads the slots \<open>i\<close> and \<open>j\<close> of the current array and writes slot
  \<open>i\<close>. The embedding keeps the order of the statements, so it is also right when
  target and projectile are the same slot.
\<close>

definition assign ::
  "nat \<Rightarrow> nat \<Rightarrow> (reb_particle \<Rightarrow> reb_particle \<Rightarrow> reb_particle) \<Rightarrow> reb_particle list
   \<Rightarrow> reb_particle list" where
  "assign i j stmt P = P[i := stmt (P ! i) (P ! j)]"

definition merge :: "sim_state \<Rightarrow> collision_params \<Rightarrow> sim_state" where
  "merge w ps =
    (let i = target ps; j = projectile ps;
         P0 = particles w;
         invmass = 1 / (m (P0 ! i) + m (P0 ! j));
         targ_rho = m (P0 ! i) / (4 / 3 * pi * (r (P0 ! i)) ^ 3);
         P1 = assign i j (\<lambda>p_i p_j. p_i\<lparr>vx := (vx p_i * m p_i + vx p_j * m p_j) * invmass\<rparr>) P0;
         P2 = assign i j (\<lambda>p_i p_j. p_i\<lparr>vy := (vy p_i * m p_i + vy p_j * m p_j) * invmass\<rparr>) P1;
         P3 = assign i j (\<lambda>p_i p_j. p_i\<lparr>vz := (vz p_i * m p_i + vz p_j * m p_j) * invmass\<rparr>) P2;
         P4 = assign i j (\<lambda>p_i p_j. p_i\<lparr>x := (x p_i * m p_i + x p_j * m p_j) * invmass\<rparr>) P3;
         P5 = assign i j (\<lambda>p_i p_j. p_i\<lparr>y := (y p_i * m p_i + y p_j * m p_j) * invmass\<rparr>) P4;
         P6 = assign i j (\<lambda>p_i p_j. p_i\<lparr>z := (z p_i * m p_i + z p_j * m p_j) * invmass\<rparr>) P5;
         P7 = assign i j (\<lambda>p_i p_j. p_i\<lparr>m := m p_i + m p_j\<rparr>) P6;
         P8 = assign i j (\<lambda>p_i p_j. p_i\<lparr>r := ((3 * m p_i) / (4 * pi * targ_rho)) powr (1 / 3)\<rparr>) P7;
         P9 = assign i j (\<lambda>p_i p_j. p_i\<lparr>last_collision := t w\<rparr>) P8
     in w\<lparr>particles := P9\<rparr>)"

section \<open>The fragment synthesizer\<close>

text \<open>
  The orthonormal basis of the collision plane (\<^verbatim>\<open>add_fragments\<close>, the block from
  \<^verbatim>\<open>unit_vix\<close> to \<^verbatim>\<open>oz = oz/o\<close>): the direction of the relative velocity, the
  normal of the plane, and the in-plane direction orthogonal to the velocity. Each is a
  vector divided by its length. When the length is zero the coordinates are NaN or
  infinite in C; that is the value \<open>None\<close>. The normal is the cross product of the
  relative velocity and the relative position, so it has length zero for every head-on
  pair.
\<close>

definition unit_vi :: "collision_params \<Rightarrow> (real \<times> real \<times> real) option" where
  "unit_vi ps =
    (if vrel ps = 0 then None
     else Some (Vix ps / vrel ps, Viy ps / vrel ps, Viz ps / vrel ps))"

definition plane_normal :: "collision_params \<Rightarrow> (real \<times> real \<times> real) option" where
  "plane_normal ps =
    (let zx = Viy ps * dz ps - Viz ps * dy ps;
         zy = Viz ps * dx ps - Vix ps * dz ps;
         zz = Vix ps * dy ps - Viy ps * dx ps;
         zm = get_mag zx zy zz
     in if zm = 0 then None else Some (zx / zm, zy / zm, zz / zm))"

definition in_plane :: "collision_params \<Rightarrow> (real \<times> real \<times> real) option" where
  "in_plane ps =
    (case plane_normal ps of
       None \<Rightarrow> None
     | Some (zx, zy, zz) \<Rightarrow>
         (let ox = zy * Viz ps - zz * Viy ps;
              oy = zz * Vix ps - zx * Viz ps;
              oz = zx * Viy ps - zy * Vix ps;
              om = get_mag ox oy oz
          in if om = 0 then None else Some (ox / om, oy / om, oz / om)))"

text \<open>
  The common outward speed of the new bodies. It is \<open>None\<close> when the C expression is
  not a finite number: a zero divisor, or a negative number under the square root.
\<close>

definition fragment_velocity ::
  "sim_state \<Rightarrow> collision_params \<Rightarrow> real \<Rightarrow> real \<Rightarrow> real option" where
  "fragment_velocity w ps initial_mass rtot =
    (let radicand = 1.1 * (V_esc ps) ^ 2
                    - 2 * G w * initial_mass * (1 / rtot - 1 / separation_distance ps)
     in if rtot = 0 \<or> separation_distance ps = 0 \<or> radicand < 0 then None
        else Some (sqrt radicand))"

text \<open>
  The second-largest remnant, at angle zero: \<open>fv\<close> is the outward speed and
  \<open>(ux, uy, uz)\<close> the direction of the relative velocity.
\<close>

definition Slr1 ::
  "sim_state \<Rightarrow> collision_params \<Rightarrow> reb_particle \<Rightarrow> real \<Rightarrow> real \<Rightarrow> real \<times> real \<times> real
   \<Rightarrow> reb_particle" where
  "Slr1 w ps com rho fv u =
    (let (ux, uy, uz) = u
     in \<lparr>x = x com + separation_distance ps * ux,
         y = y com + separation_distance ps * uy,
         z = z com + separation_distance ps * uz,
         vx = vx com + fv * ux,
         vy = vy com + fv * uy,
         vz = vz com + fv * uz,
         ax = 0, ay = 0, az = 0,
         m = Mslr ps,
         r = get_radii (Mslr ps) rho,
         last_collision = t w,
         hash = FRAG (wrap_int (tot_no_frags w + 1))\<rparr>)"

text \<open>
  The body of the loop that adds the fragments, for the loop index \<open>i\<close>; \<open>u\<close> and
  \<open>ov\<close> are the two directions in the collision plane.
\<close>

definition fragment ::
  "sim_state \<Rightarrow> collision_params \<Rightarrow> reb_particle \<Rightarrow> real \<Rightarrow> real \<Rightarrow> real \<times> real \<times> real
   \<Rightarrow> real \<times> real \<times> real \<Rightarrow> real \<Rightarrow> real \<Rightarrow> int \<Rightarrow> int \<Rightarrow> reb_particle" where
  "fragment w ps com rho fv u ov frag_mass theta_inc new_beginning_frag_index i =
    (let jj = wrap_int (i - new_beginning_frag_index + 1);
         (ux, uy, uz) = u;
         (ox, oy, oz) = ov;
         cs = cos (theta_inc * of_int jj);
         sn = sin (theta_inc * of_int jj)
     in \<lparr>x = x com + separation_distance ps * (cs * ux + sn * ox),
         y = y com + separation_distance ps * (cs * uy + sn * oy),
         z = z com + separation_distance ps * (cs * uz + sn * oz),
         vx = vx com + fv * (cs * ux + sn * ox),
         vy = vy com + fv * (cs * uy + sn * oy),
         vz = vz com + fv * (cs * uz + sn * oz),
         ax = 0, ay = 0, az = 0,
         m = frag_mass,
         r = get_radii frag_mass rho,
         last_collision = t w,
         hash = FRAG i\<rparr>)"

text \<open>
  The shearing-sheet copy wraps a new body into the periodic box before it adds it; the
  fragmentation copy adds it as it is.
\<close>

definition wrap_into_box :: "variant \<Rightarrow> sim_state \<Rightarrow> reb_particle \<Rightarrow> reb_particle" where
  "wrap_into_box v w q =
    (case v of
       Fragmentation \<Rightarrow> q
     | Shearing_Sheet \<Rightarrow>
         q\<lparr>x := x q - boxsize_x w * of_int \<lfloor>(x q + 0.5 * boxsize_x w) / boxsize_x w\<rfloor>,
           y := y q - boxsize_y w * of_int \<lfloor>(y q + 0.5 * boxsize_y w) / boxsize_y w\<rfloor>\<rparr>)"

text \<open>The momentum correction of the target and of one new body.\<close>

definition correct_target ::
  "real \<times> real \<times> real \<Rightarrow> real \<times> real \<times> real \<Rightarrow> real \<Rightarrow> reb_particle \<Rightarrow> reb_particle" where
  "correct_target xoff voff initial_mass q =
    (let (xoff0, xoff1, xoff2) = xoff; (voff0, voff1, voff2) = voff
     in q\<lparr>x := x q + xoff0 * m q / initial_mass,
          y := y q + xoff1 * m q / initial_mass,
          z := z q + xoff2 * m q / initial_mass,
          vx := vx q + voff0 * m q / initial_mass,
          vy := vy q + voff1 * m q / initial_mass,
          vz := vz q + voff2 * m q / initial_mass\<rparr>)"

definition correct_body ::
  "real \<times> real \<times> real \<Rightarrow> real \<times> real \<times> real \<Rightarrow> real \<Rightarrow> reb_particle \<Rightarrow> reb_particle" where
  "correct_body xoff voff initial_mass q =
    (let (xoff0, xoff1, xoff2) = xoff; (voff0, voff1, voff2) = voff;
         mass_fraction = m q / initial_mass
     in q\<lparr>x := x q + xoff0 * mass_fraction,
          y := y q + xoff1 * mass_fraction,
          z := z q + xoff2 * mass_fraction,
          vx := vx q + voff0 * mass_fraction,
          vy := vy q + voff1 * mass_fraction,
          vz := vz q + voff2 * mass_fraction\<rparr>)"

text \<open>
  The last loop of \<^verbatim>\<open>add_fragments\<close>: each new identifier is looked up again in the
  particle array. The fragmentation copy prints the name into ten characters, which
  hold \<^verbatim>\<open>FRAG\<close>, five more characters and the terminator: an index from 100000 on,
  or from -10000 down, is written past the buffer. When the lookup finds no body the
  shearing-sheet copy goes on to the next index; the fragmentation copy dereferences
  the null pointer.
\<close>

fun correct_frags ::
  "variant \<Rightarrow> real \<times> real \<times> real \<Rightarrow> real \<times> real \<times> real \<Rightarrow> real \<Rightarrow> int list \<Rightarrow> reb_particle list
   \<Rightarrow> abort + reb_particle list" where
  "correct_frags v xoff voff initial_mass [] P = Inr P"
| "correct_frags v xoff voff initial_mass (i # ids) P =
    (if v = Fragmentation \<and> (100000 \<le> i \<or> i \<le> - 10000) then Inl Buffer_overrun
     else
      (case reb_simulation_particle_by_hash P (FRAG i) of
         None \<Rightarrow>
           (case v of
              Shearing_Sheet \<Rightarrow> correct_frags v xoff voff initial_mass ids P
            | Fragmentation \<Rightarrow> Inl Null_pointer)
       | Some k \<Rightarrow>
           correct_frags v xoff voff initial_mass ids
             (P[k := correct_body xoff voff initial_mass (P ! k)])))"

text \<open>The sums \<^verbatim>\<open>mxsum\<close> and \<^verbatim>\<open>mvsum\<close>, one coordinate at a time.\<close>

definition msum :: "(reb_particle \<Rightarrow> real) \<Rightarrow> reb_particle list \<Rightarrow> real" where
  "msum f bodies = sum_list (map (\<lambda>q. m q * f q) bodies)"

text \<open>
  \<^verbatim>\<open>add_fragments\<close>, block by block. First the partition of the mass: the total
  mass of the pair, the centre of mass, the flag for a second-largest remnant, the mass
  left for the fragments and their number.
\<close>

definition initial_mass_of :: "sim_state \<Rightarrow> collision_params \<Rightarrow> real" where
  "initial_mass_of w ps = m (particles w ! target ps) + m (particles w ! projectile ps)"

definition com_of :: "sim_state \<Rightarrow> collision_params \<Rightarrow> reb_particle" where
  "com_of w ps =
     reb_particle_com_of_pair (particles w ! target ps) (particles w ! projectile ps)"

definition big_frags_of :: "collision_params \<Rightarrow> int" where
  "big_frags_of ps = (if Mslr ps > 0 then 1 else 0)"

definition remaining_mass_of :: "sim_state \<Rightarrow> collision_params \<Rightarrow> real" where
  "remaining_mass_of w ps =
    (if Mslr ps > 0 then initial_mass_of w ps - Mlr ps - Mslr ps
     else initial_mass_of w ps - Mlr ps)"

text \<open>
  \<^verbatim>\<open>int no_frags = remaining_mass/min_frag_mass\<close>. With a minimum fragment mass of
  zero the quotient is an infinity or NaN in C.
\<close>

definition no_frags_of :: "sim_state \<Rightarrow> collision_params \<Rightarrow> int" where
  "no_frags_of w ps =
    (if min_frag_mass w = 0 then INT_MIN
     else double_to_int (remaining_mass_of w ps / min_frag_mass w))"

text \<open>
  The target takes the mass \<open>Mlr\<close>, unless there is a single fragment at least as
  heavy: then the two masses are exchanged.
\<close>

definition swapped :: "sim_state \<Rightarrow> collision_params \<Rightarrow> bool" where
  "swapped w ps =
    (no_frags_of w ps = 1 \<and> Mlr ps \<le> remaining_mass_of w ps / of_int (no_frags_of w ps))"

definition frag_mass_of :: "sim_state \<Rightarrow> collision_params \<Rightarrow> real" where
  "frag_mass_of w ps =
    (if swapped w ps then Mlr ps else remaining_mass_of w ps / of_int (no_frags_of w ps))"

definition target_mass_of :: "sim_state \<Rightarrow> collision_params \<Rightarrow> real" where
  "target_mass_of w ps =
    (if swapped w ps then remaining_mass_of w ps / of_int (no_frags_of w ps) else Mlr ps)"

definition new_target :: "sim_state \<Rightarrow> collision_params \<Rightarrow> reb_particle" where
  "new_target w ps =
    (let tgt = particles w ! target ps;
         com = com_of w ps;
         rho = density_of tgt
     in tgt\<lparr>last_collision := t w,
            m := target_mass_of w ps,
            r := get_radii (target_mass_of w ps) rho,
            x := x com, y := y com, z := z com,
            vx := vx com, vy := vy com, vz := vz com\<rparr>)"

text \<open>
  The new bodies in the order they are added, before any wrap into the box: the
  second-largest remnant when there is one, then the fragments for the indices of the
  loop \<^verbatim>\<open>for (int i=new_beginning_frag_index; i<new_beginning_frag_index+no_frags; i++)\<close>.
  When no body is added the directions and the speed are computed and not used. The
  result is \<open>None\<close> when a coordinate of a new body is not a finite number.
\<close>

definition new_particles :: "sim_state \<Rightarrow> collision_params \<Rightarrow> reb_particle list option" where
  "new_particles w ps =
    (let tgt = particles w ! target ps;
         prj = particles w ! projectile ps;
         com = com_of w ps;
         rho = density_of tgt;
         rtot = r tgt + r prj;
         big_frags = big_frags_of ps;
         nfrags = no_frags_of w ps;
         new_bodies = wrap_int (nfrags + big_frags);
         theta_inc = (2 * pi) / of_int new_bodies;
         new_beginning_frag_index = wrap_int (tot_no_frags w + big_frags + 1);
         ids = [new_beginning_frag_index .. wrap_int (new_beginning_frag_index + nfrags) - 1]
     in if big_frags = 0 \<and> ids = [] then Some []
        else
         (case fragment_velocity w ps (initial_mass_of w ps) rtot of
            None \<Rightarrow> None
          | Some fv \<Rightarrow>
              (case unit_vi ps of
                 None \<Rightarrow> None
               | Some u \<Rightarrow>
                   (let slr = (if big_frags = 1 then [Slr1 w ps com rho fv u] else [])
                    in if ids = [] then Some slr
                       else
                        (case in_plane ps of
                           None \<Rightarrow> None
                         | Some ov \<Rightarrow>
                             if new_bodies = 0 then None
                             else Some (slr @ map (fragment w ps com rho fv u ov
                                                     (frag_mass_of w ps) theta_inc
                                                     new_beginning_frag_index) ids))))))"

text \<open>
  The offsets of the momentum correction, from the sums \<^verbatim>\<open>mxsum\<close> and
  \<^verbatim>\<open>mvsum\<close> over the target and the new bodies \<open>nps\<close>.
\<close>

definition xoff_of ::
  "sim_state \<Rightarrow> collision_params \<Rightarrow> reb_particle list \<Rightarrow> real \<times> real \<times> real" where
  "xoff_of w ps nps =
    (let com = com_of w ps;
         bodies = new_target w ps # nps;
         initial_mass = initial_mass_of w ps
     in (x com - msum x bodies / initial_mass,
         y com - msum y bodies / initial_mass,
         z com - msum z bodies / initial_mass))"

definition voff_of ::
  "sim_state \<Rightarrow> collision_params \<Rightarrow> reb_particle list \<Rightarrow> real \<times> real \<times> real" where
  "voff_of w ps nps =
    (let com = com_of w ps;
         bodies = new_target w ps # nps;
         initial_mass = initial_mass_of w ps
     in (vx com - msum vx bodies / initial_mass,
         vy com - msum vy bodies / initial_mass,
         vz com - msum vz bodies / initial_mass))"

text \<open>
  The function itself. The three assertions exist in the shearing-sheet copy only, and
  the faulting call of \<^verbatim>\<open>snprintf\<close> for the second-largest remnant in the
  fragmentation copy only. The target is the slot \<open>target ps\<close> of the array throughout
  (the C code keeps a pointer to it while it appends to the array). The last loop runs
  over \<^verbatim>\<open>for (int i=(tot_no_frags-new_bodies)+1; i<(tot_no_frags+1); i++)\<close> with the
  counter already advanced.
\<close>

definition add_fragments ::
  "variant \<Rightarrow> sim_state \<Rightarrow> collision_params \<Rightarrow> abort + (sim_state \<times> collision_params)" where
  "add_fragments v w ps =
    (if v = Shearing_Sheet \<and> min_frag_mass w \<le> 0 then Inl Assert_min_frag_mass
     else if v = Shearing_Sheet \<and> remaining_mass_of w ps \<le> 0 then Inl Assert_remaining_mass
     else if v = Shearing_Sheet \<and> (no_frags_of w ps \<le> 0 \<or> 1000000 \<le> no_frags_of w ps)
     then Inl Assert_no_frags
     else if v = Fragmentation \<and> big_frags_of ps = 1 then Inl Bad_format_call
     else
      (case new_particles w ps of
         None \<Rightarrow> Inl Not_finite
       | Some nps \<Rightarrow>
          (let new_bodies = wrap_int (no_frags_of w ps + big_frags_of ps);
               P1 = (particles w)[target ps := new_target w ps] @ map (wrap_into_box v w) nps;
               tot = wrap_int (tot_no_frags w + (big_frags_of ps + no_frags_of w ps));
               xoff = xoff_of w ps nps;
               voff = voff_of w ps nps;
               P2 = P1[target ps :=
                         correct_target xoff voff (initial_mass_of w ps) (P1 ! target ps)]
           in case correct_frags v xoff voff (initial_mass_of w ps)
                     [wrap_int ((tot - new_bodies) + 1) .. wrap_int (tot + 1) - 1] P2 of
                Inl e \<Rightarrow> Inl e
              | Inr P3 \<Rightarrow>
                  Inr (w\<lparr>particles := P3, tot_no_frags := tot\<rparr>,
                       ps\<lparr>no_frags := new_bodies\<rparr>))))"

section \<open>The hit-and-run sub-resolver\<close>

text \<open>
  \<open>reb_collision_resolve_hardsphere\<close>, the elastic bounce, is a function of the
  REBOUND library. It is a parameter of the embedding: any function from the state and
  the event to a new particle array.
\<close>

type_synonym hardsphere = "sim_state \<Rightarrow> reb_collision \<Rightarrow> reb_particle list"

text \<open>
  The two derived quantities of \<^verbatim>\<open>hit_and_run\<close>: the critical velocity \<open>v_crit\<close>
  and the mass \<open>Mlr_dag\<close> before it is clamped. The expression for \<open>Q_star\<close> keeps
  the operator precedence of the source, \<^verbatim>\<open>pow(1+gamma, 2)/4*gamma\<close>.
\<close>

definition v_crit_of :: "sim_state \<Rightarrow> collision_params \<Rightarrow> real" where
  "v_crit_of w ps =
    (let tgt = particles w ! target ps;
         prj = particles w ! projectile ps;
         c1 = 2.43; c2 = - 0.0408; c3 = 1.86; c4 = 1.08;
         targ_m = m tgt;
         imp_m = m prj;
         zeta = ((targ_m - imp_m) / (targ_m + imp_m)) ^ 2;
         fac = (1 - b ps / (r tgt + r prj)) powr 2.5
     in V_esc ps * (c1 * zeta * fac + c2 * zeta + c3 * fac + c4))"

definition Mlr_dag_of :: "sim_state \<Rightarrow> collision_params \<Rightarrow> real" where
  "Mlr_dag_of w ps =
    (let tgt = particles w ! target ps;
         prj = particles w ! projectile ps;
         phi = 2 * arccos ((l ps - r prj) / r prj);
         A_interact = (r prj) ^ 2 * (pi - (phi - sin phi) / 2);
         L_interact = 2 * ((r tgt) ^ 2 - (r tgt - l ps / 2) ^ 2) powr 0.5;
         beta = (A_interact * L_interact) / m tgt;
         Rc1 = (3 / (4 * pi * rho1 ps) * (beta * m tgt + m prj)) powr (1 / 3);
         Q0 = 0.8 * cstar ps * pi * rho1 ps * G w * Rc1 ^ 2;
         gamma = (beta * m tgt) / m prj;
         Q_star_hr = ((1 + gamma) ^ 2 / 4 * gamma) * Q0;
         mu_hr = (beta * m tgt * m prj) / (beta * m tgt + m prj);
         Q_hr = 0.5 * (mu_hr * (Vi ps) ^ 2) / (beta * m tgt + m prj);
         targ_m = m tgt;
         imp_m = m prj
     in if Q_hr < 1.8 * Q_star_hr
        then (beta * targ_m + imp_m) * (1 - Q_hr / (2 * Q_star_hr))
        else (beta * m tgt + m prj) / 10 * (Q_hr / (1.8 * Q_star_hr)) powr (- 1.5))"

definition hit_and_run ::
  "variant \<Rightarrow> hardsphere \<Rightarrow> sim_state \<Rightarrow> reb_collision \<Rightarrow> collision_params
   \<Rightarrow> abort + (sim_state \<times> collision_params \<times> int)" where
  "hit_and_run v hs w c ps =
    (let tgt = particles w ! target ps;
         prj = particles w ! projectile ps;
         swap = (if m (particles w ! p1 c) < m (particles w ! p2 c) then 1 else 2);
         targ_m = m tgt;
         imp_m = m prj
     in if Vi ps \<le> v_crit_of w ps
        then Inr (merge w (ps\<lparr>collision_type := 1\<rparr>), ps\<lparr>collision_type := 1\<rparr>, swap)
        else
         (let ps1 = ps\<lparr>Mlr := MAX_macro (Mlr ps) (min_frag_mass w)\<rparr>
          in if Mlr ps1 < targ_m
             then
              (if targ_m + imp_m - Mlr ps1 \<le> min_frag_mass w
               then Inr (w\<lparr>particles := hs w c\<rparr>, ps1\<lparr>collision_type := 0\<rparr>, 0)
               else
                (case add_fragments v w (ps1\<lparr>collision_type := 3\<rparr>) of
                   Inl e \<Rightarrow> Inl e
                 | Inr (w', ps') \<Rightarrow> Inr (w', ps', swap)))
             else
              (let projectile_mass_accreted = Mlr ps1 - targ_m;
                   new_projectile_mass = m prj - projectile_mass_accreted;
                   Mlr_dag1 = MAX_macro (Mlr_dag_of w ps) (min_frag_mass w)
               in if new_projectile_mass - Mlr_dag1 < min_frag_mass w
                  then Inr (w\<lparr>particles := hs w c\<rparr>, ps1\<lparr>collision_type := 0\<rparr>, 0)
                  else
                   (case add_fragments v w (ps1\<lparr>Mslr := Mlr_dag1, collision_type := 2\<rparr>) of
                      Inl e \<Rightarrow> Inl e
                    | Inr (w', ps') \<Rightarrow> Inr (w', ps', swap)))))"

section \<open>The event record\<close>

text \<open>
  \<^verbatim>\<open>print_collision_array\<close> appends one line to the report. Its loop is
  \<^verbatim>\<open>for(int i=(r->N - params->no_frags);i<r->N;i++)\<close>. The number of bodies
  \<^verbatim>\<open>r->N\<close> is an \<^verbatim>\<open>unsigned int\<close> in the version of REBOUND whose functions the
  resolver calls, so the difference is taken modulo \<open>2^32\<close> and the test compares the
  index as an unsigned number: the loop reads inside the array or not at all.
\<close>

definition print_collision_array :: "sim_state \<Rightarrow> collision_params \<Rightarrow> sim_state" where
  "print_collision_array w ps =
    (let P = particles w;
         N = int (length P);
         line = \<lparr>rep_time = t w,
                 rep_type = collision_type ps,
                 rep_target_hash = hash (P ! target ps),
                 rep_target_mass = m (P ! target ps),
                 rep_projectile_hash = hash (P ! projectile ps),
                 rep_fragments =
                   map (\<lambda>i. (hash (P ! nat i), m (P ! nat i)))
                     [(N - no_frags ps) mod 4294967296 .. N - 1]\<rparr>
     in w\<lparr>collision_report := collision_report w @ [line]\<rparr>)"

section \<open>The pairwise dynamics builder\<close>

text \<open>\<^verbatim>\<open>init_collision_params\<close>: every field zero.\<close>

definition init_collision_params :: collision_params where
  "init_collision_params =
    \<lparr>target = 0, projectile = 0, dx = 0, dy = 0, dz = 0, b = 0, Vix = 0, Viy = 0, Viz = 0,
     Vi = 0, l = 0, rho1 = 0, cstar = 0, mu = 0, QR = 0, QpRD = 0, V_esc = 0,
     separation_distance = 0, Mlr = 0, Mslr = 0, Q = 0, Mlr_dag = 0, Q_star = 0, vrel = 0,
     xrel = 0, collision_type = 0, no_frags = 0\<rparr>"

text \<open>
  The test \<^verbatim>\<open>b != b\<close> holds exactly when \<^verbatim>\<open>b = sqrt(h2/v2imp)\<close> is NaN. For finite
  operands that is the quotient \<open>0/0\<close> or a negative quotient.
\<close>

definition b_is_nan :: "real \<Rightarrow> real \<Rightarrow> bool" where
  "b_is_nan h2 v2imp = ((h2 = 0 \<and> v2imp = 0) \<or> h2 / v2imp < 0)"

text \<open>
  The density \<^verbatim>\<open>rho1\<close> is assigned for four values of \<open>G\<close> only. For any other
  \<open>G\<close> the variable keeps whatever it held; that value is the parameter
  \<open>rho1_init\<close>.
\<close>

definition select_rho1 :: "real \<Rightarrow> real \<Rightarrow> real" where
  "select_rho1 rho1_init Gc =
    (let rho1a = (if Gc = 6.674 / 10 ^ 8 then 1 else rho1_init);
         rho1b = (if Gc = 6.674 / 10 ^ 11 then 1000 else rho1a)
     in if Gc = 39.476926421373 \<or> Gc = 1 then 1.684 * 10 ^ 6 else rho1b)"

text \<open>
  The blocks of the first half of \<^verbatim>\<open>reb_collision_resolve_fragment\<close>, in the order
  of the source: the impact speed with gravitational focusing (in C the quotient
  \<^verbatim>\<open>1./xrel\<close> is \<open>+\<infinity>\<close> for coincident centres, which makes the test for late
  detection true), the interacting mass fraction, the critical energy \<open>Q_star\<close> with
  its two special cases, and the mass of the largest remnant.
\<close>

definition v2imp_of :: "real \<Rightarrow> real \<Rightarrow> real \<Rightarrow> real \<Rightarrow> real \<Rightarrow> real" where
  "v2imp_of Gc M_tot R_tot xrel0 v2rel =
    (if xrel0 = 0 \<or> 1 / R_tot - 1 / xrel0 < 0 then v2rel
     else v2rel + 2 * Gc * M_tot * (1 / R_tot - 1 / xrel0))"

definition alpha_of :: "real \<Rightarrow> real \<Rightarrow> real" where
  "alpha_of l0 imp_r = MIN_macro 1 ((l0 ^ 2 * (3 * imp_r - l0)) / (4 * imp_r ^ 3))"

definition alphamu_of :: "real \<Rightarrow> real \<Rightarrow> real \<Rightarrow> real" where
  "alphamu_of alpha targ_m imp_m = (alpha * targ_m * imp_m) / (alpha * imp_m + targ_m)"

definition Q0_of :: "real \<Rightarrow> real \<Rightarrow> real \<Rightarrow> real \<Rightarrow> real" where
  "Q0_of Gc rho10 cstar0 M_tot =
    (let Rc1 = ((M_tot * 3) / (4 * pi * rho10)) powr (1 / 3)
     in 0.8 * cstar0 * pi * rho10 * Gc * Rc1 ^ 2)"

definition Q_star_of ::
  "real \<Rightarrow> real \<Rightarrow> real \<Rightarrow> real \<Rightarrow> real \<Rightarrow> real \<Rightarrow> real \<Rightarrow> real \<Rightarrow> real" where
  "Q_star_of Gc rho10 cstar0 targ_m imp_m alpha mu0 b0 =
    (let M_tot = imp_m + targ_m;
         alphamu = alphamu_of alpha targ_m imp_m;
         gamma = imp_m / targ_m;
         Q_0 = Q0_of Gc rho10 cstar0 M_tot;
         Q_star_a = (mu0 / alphamu) powr 1.5 * ((1 + gamma) ^ 2 / (4 * gamma)) * Q_0;
         Q_star_b = (if alpha = 0 then 6364136223846793005 else Q_star_a)
     in if b0 = 0 \<and> imp_m = targ_m then Q_0 else Q_star_b)"

definition Mlr_of :: "real \<Rightarrow> real \<Rightarrow> real \<Rightarrow> real" where
  "Mlr_of M_tot Q0 Q_star0 =
    (let qratio = Q0 / Q_star0
     in if qratio < 1.8 then M_tot * (1 - 0.5 * qratio)
        else 0.1 * M_tot * (qratio / 1.8) powr (- 1.5))"

text \<open>
  The first half of \<^verbatim>\<open>reb_collision_resolve_fragment\<close>, from the radii to the filled
  parameter record, for target slot \<open>i\<close> and projectile slot \<open>j\<close>.
\<close>

definition collision_context ::
  "real \<Rightarrow> sim_state \<Rightarrow> nat \<Rightarrow> nat \<Rightarrow> abort + collision_params" where
  "collision_context rho1_init w i j =
    (let P = particles w;
         imp_r = r (P ! j);
         targ_r = r (P ! i);
         R_tot = imp_r + targ_r;
         imp_m = m (P ! j);
         targ_m = m (P ! i);
         M_tot = imp_m + targ_m;
         Gc = G w;
         (dx0, dy0, dz0) = make_vector (x (P ! i)) (y (P ! i)) (z (P ! i))
                             (x (P ! j)) (y (P ! j)) (z (P ! j));
         x2rel = get_dot dx0 dy0 dz0 dx0 dy0 dz0;
         (Vix0, Viy0, Viz0) = make_vector (vx (P ! i)) (vy (P ! i)) (vz (P ! i))
                                (vx (P ! j)) (vy (P ! j)) (vz (P ! j));
         v2rel = get_dot Vix0 Viy0 Viz0 Vix0 Viy0 Viz0;
         xrel0 = sqrt x2rel;
         hx = dy0 * Viz0 - dz0 * Viy0;
         hy = dz0 * Vix0 - dx0 * Viz0;
         hz = dx0 * Viy0 - dy0 * Vix0;
         h2 = get_dot hx hy hz hx hy hz;
         v2imp = v2imp_of Gc M_tot R_tot xrel0 v2rel;
         Vi0 = sqrt v2imp;
         b0 = sqrt (h2 / v2imp)
     in if b_is_nan h2 v2imp then Inl NaN_b
        else
         (let mu0 = (targ_m * imp_m) / M_tot;
              l0 = MIN_macro (R_tot - b0) (2 * imp_r);
              alpha = alpha_of l0 imp_r;
              Q0 = 0.5 * v2imp * targ_m * imp_m / M_tot ^ 2;
              V_esc0 = (2 * Gc * M_tot / R_tot) powr 0.5;
              cstar0 = 1.8;
              rho10 = select_rho1 rho1_init Gc;
              Q_star0 = Q_star_of Gc rho10 cstar0 targ_m imp_m alpha mu0 b0;
              Mlr0 = Mlr_of M_tot Q0 Q_star0;
              separation_distance0 = 4 * R_tot
          in Inr (init_collision_params
                   \<lparr>target := i, projectile := j, dx := dx0, dy := dy0, dz := dz0, b := b0,
                    Vix := Vix0, Viy := Viy0, Viz := Viz0, Vi := Vi0, l := l0, rho1 := rho10,
                    cstar := cstar0, mu := mu0, Q := Q0,
                    separation_distance := separation_distance0, V_esc := V_esc0,
                    vrel := sqrt v2rel, Mslr := 0, xrel := xrel0, Mlr := Mlr0\<rparr>)))"

section \<open>The collision classifier and the resolver\<close>

text \<open>
  The decision tree of the second half of \<^verbatim>\<open>reb_collision_resolve_fragment\<close>. The
  names of the outcomes are the labels the branches print; \<open>GRAZING\<close> is the branch
  that calls \<^verbatim>\<open>hit_and_run\<close>.
\<close>

datatype outcome =
  SIMPLY_MERGED
  | EFFECTIVELY_MERGED
  | SUPER_CATASTROPHIC
  | PARTIAL_EROSION
  | PARTIAL_ACCRETION
  | GRAZING

definition classify :: "real \<Rightarrow> real \<Rightarrow> real \<Rightarrow> real \<Rightarrow> collision_params \<Rightarrow> outcome" where
  "classify mfm M_tot targ_m targ_r ps =
    (if Vi ps \<le> V_esc ps then SIMPLY_MERGED
     else if b ps < targ_r
     then
      (if M_tot - Mlr ps < mfm then EFFECTIVELY_MERGED
       else if Mlr ps < targ_m
       then (if Mlr ps \<le> 0.1 * targ_m then SUPER_CATASTROPHIC else PARTIAL_EROSION)
       else PARTIAL_ACCRETION)
     else GRAZING)"

text \<open>What each branch of the tree does.\<close>

definition dispatch ::
  "variant \<Rightarrow> hardsphere \<Rightarrow> sim_state \<Rightarrow> reb_collision \<Rightarrow> collision_params \<Rightarrow> int
   \<Rightarrow> abort + (sim_state \<times> collision_params \<times> int)" where
  "dispatch v hs w c ps swap =
    (let tgt = particles w ! target ps;
         prj = particles w ! projectile ps
     in case classify (min_frag_mass w) (m prj + m tgt) (m tgt) (r tgt) ps of
          SIMPLY_MERGED \<Rightarrow>
            Inr (merge w (ps\<lparr>collision_type := 1\<rparr>), ps\<lparr>collision_type := 1\<rparr>, swap)
        | EFFECTIVELY_MERGED \<Rightarrow>
            Inr (merge w (ps\<lparr>collision_type := 1\<rparr>), ps\<lparr>collision_type := 1\<rparr>, swap)
        | SUPER_CATASTROPHIC \<Rightarrow>
            (case add_fragments v w
                    (ps\<lparr>collision_type := 4, Mlr := MAX_macro (Mlr ps) (min_frag_mass w)\<rparr>) of
               Inl e \<Rightarrow> Inl e
             | Inr (w', ps') \<Rightarrow> Inr (w', ps', swap))
        | PARTIAL_EROSION \<Rightarrow>
            (case add_fragments v w
                    (ps\<lparr>collision_type := 3, Mlr := MAX_macro (Mlr ps) (min_frag_mass w)\<rparr>) of
               Inl e \<Rightarrow> Inl e
             | Inr (w', ps') \<Rightarrow> Inr (w', ps', swap))
        | PARTIAL_ACCRETION \<Rightarrow>
            (case add_fragments v w (ps\<lparr>collision_type := 2\<rparr>) of
               Inl e \<Rightarrow> Inl e
             | Inr (w', ps') \<Rightarrow> Inr (w', ps', swap))
        | GRAZING \<Rightarrow> hit_and_run v hs w c ps)"

text \<open>
  \<^verbatim>\<open>reb_collision_resolve_fragment\<close>: the two guards, the ordering of the pair (the
  heavier body is the target), the builder, the classifier, the event record. The
  result is the new state and the disposition code.
\<close>

definition reb_collision_resolve_fragment ::
  "variant \<Rightarrow> hardsphere \<Rightarrow> real \<Rightarrow> sim_state \<Rightarrow> reb_collision \<Rightarrow> abort + (sim_state \<times> int)" where
  "reb_collision_resolve_fragment v hs rho1_init w c =
    (if last_collision (particles w ! p1 c) = t w \<or> last_collision (particles w ! p2 c) = t w
     then Inr (w, 0)
     else if p1 c < p2 c then Inr (w, 0)
     else
      (let heavier_second = (m (particles w ! p1 c) < m (particles w ! p2 c));
           swap = (if heavier_second then 1 else 2);
           i = (if heavier_second then p2 c else p1 c);
           j = (if heavier_second then p1 c else p2 c)
       in case collision_context rho1_init w i j of
            Inl e \<Rightarrow> Inl e
          | Inr ps \<Rightarrow>
              (case dispatch v hs w c ps swap of
                 Inl e \<Rightarrow> Inl e
               | Inr (w', ps', swap') \<Rightarrow> Inr (print_collision_array w' ps', swap'))))"

section \<open>The claims in the words of the specification\<close>

text \<open>
  The critical energy and the mass of the largest remnant as the specification writes
  them, to be compared with \<open>Q_star_of\<close> and \<open>Mlr_of\<close>.
\<close>

definition spec_Q_star :: "real \<Rightarrow> real \<Rightarrow> real \<Rightarrow> real \<Rightarrow> bool \<Rightarrow> bool \<Rightarrow> real" where
  "spec_Q_star mu0 alpha_mu gamma Q_0 alpha_zero head_on_equal =
    (if head_on_equal then Q_0
     else if alpha_zero then 6364136223846793005
     else (mu0 / alpha_mu) powr 1.5 * (1 + gamma) ^ 2 / (4 * gamma) * Q_0)"

definition spec_Mlr :: "real \<Rightarrow> real \<Rightarrow> real \<Rightarrow> real" where
  "spec_Mlr Mtot Q0 Qs =
    (if Q0 / Qs < 1.8 then Mtot * (1 - 0.5 * Q0 / Qs)
     else 0.1 * Mtot * (Q0 / (1.8 * Qs)) powr (- 1.5))"

section \<open>Examples\<close>

text \<open>
  A body in the plane \<open>z = 0\<close> that moves along the \<open>x\<close> axis, and a state with two
  overlapping bodies: slot 0 holds the lighter one at rest at the origin, slot 1 the
  heavier one, which passes at distance 1 with speed 3.
\<close>

definition body :: "real \<Rightarrow> real \<Rightarrow> real \<Rightarrow> real \<Rightarrow> real \<Rightarrow> nat \<Rightarrow> reb_particle" where
  "body px py pvx ma ra k =
    \<lparr>x = px, y = py, z = 0, vx = pvx, vy = 0, vz = 0, ax = 0, ay = 0, az = 0,
     m = ma, r = ra, last_collision = - 1, hash = NAMED k\<rparr>"

definition example_state :: sim_state where
  "example_state =
    \<lparr>G = 1, t = 0, particles = [body 0 0 0 1 1 0, body 0 1 (- 3) 3 3 1],
     boxsize_x = 100, boxsize_y = 100, min_frag_mass = 1, tot_no_frags = 0,
     collision_report = []\<rparr>"

definition no_bounce :: hardsphere where
  "no_bounce w c = particles w"

text \<open>
  An off-centre encounter at high speed: slot 0 holds a body of mass \<open>mp\<close> and radius 1 at rest
  at the origin, slot 1 a body of mass \<open>mt\<close> and radius 3 at \<open>(0, 1, 0)\<close> with
  velocity \<open>(-20000, 0, 0)\<close>. The gravitational constant is 1 and the minimum fragment
  mass is the \<open>1.4e-8\<close> of the fragmentation copy.
\<close>

definition impact_state :: "real \<Rightarrow> real \<Rightarrow> sim_state" where
  "impact_state mp mt =
    \<lparr>G = 1, t = 0, particles = [body 0 0 0 mp 1 0, body 0 1 (- 20000) mt 3 1],
     boxsize_x = 100, boxsize_y = 100, min_frag_mass = 1.4 / 10 ^ 8, tot_no_frags = 0,
     collision_report = []\<rparr>"

text \<open>
  Two instances of it, in units of the minimum fragment mass \<open>mfm\<close>: a pair of total
  mass \<open>1.5 mfm\<close> and a pair of total mass \<open>2.5 mfm\<close>. In both the heavier body
  has four times the mass of the lighter one. The event names the heavier body first.
\<close>

definition dust_state :: sim_state where
  "dust_state = impact_state (4.2 / 10 ^ 9) (4 * (4.2 / 10 ^ 9))"

definition grain_state :: sim_state where
  "grain_state = impact_state (7 / 10 ^ 9) (4 * (7 / 10 ^ 9))"

definition impact_event :: reb_collision where
  "impact_event = \<lparr>p1 = 1, p2 = 0\<rparr>"

text \<open>
  The same pair with the masses 10 and 40: the mass left for the fragments is more than
  \<open>2^31\<close> times the minimum fragment mass.
\<close>

definition heavy_state :: sim_state where
  "heavy_state = impact_state 10 (4 * 10)"







section \<open>Lemmas on the operators\<close>

lemma assign_updated:
  "i < length P \<Longrightarrow> i \<noteq> j \<Longrightarrow> assign i j f (P[i := q]) = P[i := f q (P ! j)]"
  by (simp add: assign_def)

lemma assign_first: "assign i j f P = P[i := f (P ! i) (P ! j)]"
  by (simp add: assign_def)

lemma context_fields:
  assumes "collision_context u w i j = Inr ps"
  shows "target ps = i" "projectile ps = j"
    "V_esc ps = (2 * G w * (m (particles w ! j) + m (particles w ! i))
                 / (r (particles w ! j) + r (particles w ! i))) powr 0.5"
    "separation_distance ps = 4 * (r (particles w ! j) + r (particles w ! i))"
    "cstar ps = 1.8" "rho1 ps = select_rho1 u (G w)" "Mslr ps = 0"
    "mu ps = (m (particles w ! i) * m (particles w ! j))
             / (m (particles w ! j) + m (particles w ! i))"
    "l ps = MIN_macro (r (particles w ! j) + r (particles w ! i) - b ps)
              (2 * r (particles w ! j))"
    "Mlr ps = Mlr_of (m (particles w ! j) + m (particles w ! i)) (Q ps)
       (Q_star_of (G w) (rho1 ps) (cstar ps) (m (particles w ! i)) (m (particles w ! j))
          (alpha_of (l ps) (r (particles w ! j))) (mu ps) (b ps))"
    "collision_type ps = 0" "no_frags ps = 0"
  using assms
  by (auto simp: collision_context_def Let_def init_collision_params_def make_vector_def
      split: if_splits)

lemma example_context: "\<exists>ps. collision_context 0 example_state 1 0 = Inr ps"
  by (simp add: collision_context_def Let_def example_state_def body_def make_vector_def
      get_dot_def v2imp_of_def b_is_nan_def)

lemma Mlr_of_spec: "Mlr_of M_tot Q0 Qs = spec_Mlr M_tot Q0 Qs"
  by (simp add: Mlr_of_def spec_Mlr_def Let_def mult.commute)

lemma Q_star_of_spec:
  "Q_star_of Gc rho10 cstar0 targ_m imp_m alpha mu0 b0 =
   spec_Q_star mu0 (alphamu_of alpha targ_m imp_m) (imp_m / targ_m)
     (Q0_of Gc rho10 cstar0 (imp_m + targ_m)) (alpha = 0) (b0 = 0 \<and> imp_m = targ_m)"
  by (simp add: Q_star_of_def spec_Q_star_def Let_def)

lemma V_esc_sq:
  assumes "collision_context u w i j = Inr ps"
    and "0 < G w" "0 < m (particles w ! i)" "0 < m (particles w ! j)"
    and "0 < r (particles w ! i)" "0 < r (particles w ! j)"
  shows "(V_esc ps) ^ 2 = 2 * G w * (m (particles w ! i) + m (particles w ! j))
                 / (r (particles w ! i) + r (particles w ! j))" and "0 < V_esc ps"
proof -
  let ?q = "2 * G w * (m (particles w ! j) + m (particles w ! i))
                 / (r (particles w ! j) + r (particles w ! i))"
  have pos: "0 < ?q" using assms(2-) by simp
  have V: "V_esc ps = ?q powr 0.5" using context_fields(3)[OF assms(1)] .
  have "?q powr 0.5 = sqrt ?q" using powr_half_sqrt[of ?q] pos by simp
  with V have V': "V_esc ps = sqrt ?q" by simp
  show "0 < V_esc ps" using V' pos by simp
  show "(V_esc ps) ^ 2 = 2 * G w * (m (particles w ! i) + m (particles w ! j))
                 / (r (particles w ! i) + r (particles w ! j))"
    using V' pos by (simp add: add.commute)
qed

lemma radicand_algebra:
  fixes g M R :: real
  assumes "0 < R"
  shows "1.1 * (2 * g * M / R) - 2 * g * M * (1 / R - 1 / (4 * R)) = 0.35 * (2 * g * M / R)"
  using assms by (simp add: field_simps)

lemma map_update_frame:
  assumes "\<And>q. f (g q) = f q"
  shows "map f (P[k := g (P ! k)]) = map f P"
proof (cases "k < length P")
  case True
  then show ?thesis by (simp add: map_update assms list_update_same_conv)
next
  case False
  then have "P[k := g (P ! k)] = P" by (simp add: list_update_beyond)
  then show ?thesis by simp
qed

lemma by_hash_bound:
  "reb_simulation_particle_by_hash P h = Some k \<Longrightarrow> k < length P \<and> hash (P ! k) = h"
proof (induction P arbitrary: k)
  case Nil
  then show ?case by simp
next
  case (Cons q qs)
  show ?case
  proof (cases "hash q = h")
    case True
    with Cons.prems show ?thesis by simp
  next
    case False
    with Cons.prems obtain k' where "reb_simulation_particle_by_hash qs h = Some k'" "k = Suc k'"
      by auto
    with Cons.IH[of k'] show ?thesis by simp
  qed
qed

lemma correct_body_frame [simp]:
  "m (correct_body xoff voff M q) = m q"
  "hash (correct_body xoff voff M q) = hash q"
  "last_collision (correct_body xoff voff M q) = last_collision q"
  by (simp_all add: correct_body_def Let_def split: prod.splits)

lemma correct_target_frame [simp]:
  "m (correct_target xoff voff M q) = m q"
  "hash (correct_target xoff voff M q) = hash q"
  "last_collision (correct_target xoff voff M q) = last_collision q"
  by (simp_all add: correct_target_def Let_def split: prod.splits)

lemma wrap_into_box_frame [simp]:
  "m (wrap_into_box v w q) = m q"
  "hash (wrap_into_box v w q) = hash q"
  "last_collision (wrap_into_box v w q) = last_collision q"
  by (cases v; simp add: wrap_into_box_def)+

lemma correct_frags_frame:
  "correct_frags v xoff voff M ids P = Inr P' \<Longrightarrow>
     map m P' = map m P \<and> map hash P' = map hash P
     \<and> map last_collision P' = map last_collision P"
proof (induction ids arbitrary: P)
  case Nil
  then show ?case by simp
next
  case (Cons i ids)
  from Cons.prems have fits: "\<not> (v = Fragmentation \<and> (100000 \<le> i \<or> i \<le> - 10000))"
    by (auto split: if_splits)
  show ?case
  proof (cases "reb_simulation_particle_by_hash P (FRAG i)")
    case None
    with Cons.prems fits have "correct_frags v xoff voff M ids P = Inr P'"
      by (cases v) simp_all
    then show ?thesis by (rule Cons.IH)
  next
    case (Some k)
    let ?P1 = "P[k := correct_body xoff voff M (P ! k)]"
    from Some Cons.prems fits have "correct_frags v xoff voff M ids ?P1 = Inr P'" by simp
    from Cons.IH[OF this] show ?thesis by (simp add: map_update_frame)
  qed
qed

lemma wrap_int_id: "INT_MIN \<le> k \<Longrightarrow> k \<le> INT_MAX \<Longrightarrow> wrap_int k = k"
  by (simp add: wrap_int_def INT_MIN_def INT_MAX_def)

lemma add_fragments_result:
  assumes "add_fragments v w ps = Inr (w', ps')"
  shows "t w' = t w" and "G w' = G w" and "min_frag_mass w' = min_frag_mass w"
    and "collision_report w' = collision_report w"
    and "tot_no_frags w' = wrap_int (tot_no_frags w + (big_frags_of ps + no_frags_of w ps))"
    and "ps' = ps\<lparr>no_frags := wrap_int (no_frags_of w ps + big_frags_of ps)\<rparr>"
    and "\<exists>nps. new_particles w ps = Some nps
           \<and> map m (particles w')
               = map m ((particles w)[target ps := new_target w ps] @ nps)
           \<and> map hash (particles w')
               = map hash ((particles w)[target ps := new_target w ps] @ nps)
           \<and> map last_collision (particles w')
               = map last_collision ((particles w)[target ps := new_target w ps] @ nps)"
proof -
  from assms obtain nps where nps: "new_particles w ps = Some nps"
    by (auto simp: add_fragments_def split: if_splits option.splits)
  let ?P1 = "(particles w)[target ps := new_target w ps] @ map (wrap_into_box v w) nps"
  let ?P2 = "?P1[target ps := correct_target (xoff_of w ps nps) (voff_of w ps nps)
                                (initial_mass_of w ps) (?P1 ! target ps)]"
  let ?tot = "wrap_int (tot_no_frags w + (big_frags_of ps + no_frags_of w ps))"
  let ?nb = "wrap_int (no_frags_of w ps + big_frags_of ps)"
  from assms nps obtain P3 where
    P3: "correct_frags v (xoff_of w ps nps) (voff_of w ps nps) (initial_mass_of w ps)
           [wrap_int ((?tot - ?nb) + 1) .. wrap_int (?tot + 1) - 1] ?P2 = Inr P3"
    and w': "w' = w\<lparr>particles := P3, tot_no_frags := ?tot\<rparr>"
    and ps': "ps' = ps\<lparr>no_frags := ?nb\<rparr>"
    by (auto simp: add_fragments_def Let_def split: if_splits sum.splits)
  from w' show "t w' = t w" "G w' = G w" "min_frag_mass w' = min_frag_mass w"
    "collision_report w' = collision_report w"
    "tot_no_frags w' = wrap_int (tot_no_frags w + (big_frags_of ps + no_frags_of w ps))"
    by simp_all
  from ps' show "ps' = ps\<lparr>no_frags := wrap_int (no_frags_of w ps + big_frags_of ps)\<rparr>" .
  have P2: "map m ?P2 = map m ?P1" "map hash ?P2 = map hash ?P1"
    "map last_collision ?P2 = map last_collision ?P1"
    by (rule map_update_frame, simp)+
  have P1: "map m ?P1 = map m ((particles w)[target ps := new_target w ps] @ nps)"
    "map hash ?P1 = map hash ((particles w)[target ps := new_target w ps] @ nps)"
    "map last_collision ?P1
     = map last_collision ((particles w)[target ps := new_target w ps] @ nps)"
    by simp_all
  from correct_frags_frame[OF P3] P2 P1 w'
  have "map m (particles w') = map m ((particles w)[target ps := new_target w ps] @ nps)"
    "map hash (particles w') = map hash ((particles w)[target ps := new_target w ps] @ nps)"
    "map last_collision (particles w')
       = map last_collision ((particles w)[target ps := new_target w ps] @ nps)"
    by simp_all
  with nps show "\<exists>nps. new_particles w ps = Some nps
           \<and> map m (particles w')
               = map m ((particles w)[target ps := new_target w ps] @ nps)
           \<and> map hash (particles w')
               = map hash ((particles w)[target ps := new_target w ps] @ nps)
           \<and> map last_collision (particles w')
               = map last_collision ((particles w)[target ps := new_target w ps] @ nps)"
    by blast
qed

lemma add_fragments_guards:
  assumes "add_fragments Shearing_Sheet w ps = Inr (w', ps')"
  shows "0 < min_frag_mass w" "0 < remaining_mass_of w ps" "0 < no_frags_of w ps"
    "no_frags_of w ps < 1000000"
  using assms by (auto simp: add_fragments_def split: if_splits)

lemma Slr1_fields [simp]:
  "m (Slr1 w ps com rho fv u) = Mslr ps"
  "hash (Slr1 w ps com rho fv u) = FRAG (wrap_int (tot_no_frags w + 1))"
  "last_collision (Slr1 w ps com rho fv u) = t w"
  by (simp_all add: Slr1_def Let_def split: prod.splits)

lemma fragment_fields [simp]:
  "m (fragment w ps com rho fv u ov fm th nb i) = fm"
  "hash (fragment w ps com rho fv u ov fm th nb i) = FRAG i"
  "last_collision (fragment w ps com rho fv u ov fm th nb i) = t w"
  by (simp_all add: fragment_def Let_def split: prod.splits)

lemma new_target_fields [simp]:
  "m (new_target w ps) = target_mass_of w ps"
  "hash (new_target w ps) = hash (particles w ! target ps)"
  "last_collision (new_target w ps) = t w"
  by (simp_all add: new_target_def Let_def)

lemma partition_mass:
  assumes "1 \<le> no_frags_of w ps"
  shows "target_mass_of w ps + of_nat (nat (no_frags_of w ps)) * frag_mass_of w ps
         = Mlr ps + remaining_mass_of w ps"
proof (cases "swapped w ps")
  case True
  then have "no_frags_of w ps = 1" by (simp add: swapped_def)
  with True show ?thesis by (simp add: target_mass_of_def frag_mass_of_def)
next
  case False
  have "real (nat (no_frags_of w ps)) = of_int (no_frags_of w ps)" using assms by simp
  moreover have "of_int (no_frags_of w ps) \<noteq> (0::real)" using assms by simp
  ultimately show ?thesis using False by (simp add: target_mass_of_def frag_mass_of_def)
qed

section \<open>Lemmas on the resolver\<close>



lemma assign_length [simp]: "length (assign i j f P) = length P"
  by (simp add: assign_def)





lemma print_collision_array_frame [simp]:
  "particles (print_collision_array w ps) = particles w"
  "t (print_collision_array w ps) = t w"
  "tot_no_frags (print_collision_array w ps) = tot_no_frags w"
  "min_frag_mass (print_collision_array w ps) = min_frag_mass w"
  by (simp_all add: print_collision_array_def Let_def)



section \<open>Lemmas on the example events\<close>

lemma sqrt_4e8: "sqrt 400000000 = 20000"
proof -
  have "sqrt ((20000::real) ^ 2) = 20000" by (simp only: real_sqrt_abs)
  then show ?thesis by simp
qed

lemma impact_context:
  assumes "0 < mp" "0 < mt"
  shows "\<exists>ps. collision_context u (impact_state mp mt) 1 0 = Inr ps
    \<and> target ps = 1 \<and> projectile ps = 0
    \<and> dx ps = 0 \<and> dy ps = 1 \<and> dz ps = 0
    \<and> Vix ps = - 20000 \<and> Viy ps = 0 \<and> Viz ps = 0
    \<and> vrel ps = 20000 \<and> Vi ps = 20000 \<and> b ps = 1
    \<and> separation_distance ps = 16
    \<and> Mslr ps = 0 \<and> no_frags ps = 0
    \<and> Mlr ps = Mlr_of (mp + mt) (200000000 * mt * mp / (mp + mt) ^ 2)
                 (Q_star_of 1 1684000 1.8 mt mp 1 (mt * mp / (mp + mt)) 1)"
  using assms
  by (simp add: collision_context_def Let_def impact_state_def body_def make_vector_def
      get_dot_def v2imp_of_def b_is_nan_def init_collision_params_def sqrt_4e8
      MIN_macro_def alpha_of_def select_rho1_def)

lemma impact_V_esc:
  assumes "0 < mp" "0 < mt" "collision_context u (impact_state mp mt) 1 0 = Inr ps"
  shows "(V_esc ps) ^ 2 = (mp + mt) / 2" "0 < V_esc ps"
proof -
  have pos: "0 < G (impact_state mp mt)"
    "0 < m (particles (impact_state mp mt) ! 1)" "0 < m (particles (impact_state mp mt) ! 0)"
    "0 < r (particles (impact_state mp mt) ! 1)" "0 < r (particles (impact_state mp mt) ! 0)"
    using assms by (simp_all add: impact_state_def body_def)
  from V_esc_sq[OF assms(3) pos]
  show "(V_esc ps) ^ 2 = (mp + mt) / 2" "0 < V_esc ps"
    by (simp_all add: impact_state_def body_def)
qed

lemma powr_third_le_one:
  fixes a :: real
  assumes "0 \<le> a" "a \<le> 1"
  shows "a powr (1 / 3) \<le> 1"
  using powr_mono2[of "1 / 3" a 1] assms by simp

lemma Q0_of_bounds:
  assumes "0 < M" "0 < rho" "0 < Gc" "0 < cs" "3 * M \<le> 4 * pi * rho"
  shows "0 < Q0_of Gc rho cs M" "Q0_of Gc rho cs M \<le> 0.8 * cs * pi * rho * Gc"
proof -
  let ?a = "(M * 3) / (4 * pi * rho)"
  let ?R = "?a powr (1 / 3)"
  have a: "0 < ?a" "?a \<le> 1" using assms by (simp_all add: field_simps)
  have "?a \<noteq> 0" using a(1) by linarith
  then have "0 < ?R" using powr_gt_zero[of ?a "1 / 3"] by blast
  moreover have "?R \<le> 1" using a powr_third_le_one[of ?a] by simp
  ultimately have R: "0 < ?R" "?R \<le> 1" by blast+
  then have R2: "0 < ?R ^ 2" "?R ^ 2 \<le> 1" by (simp_all add: power_le_one)
  have k: "0 < 0.8 * cs * pi * rho * Gc" using assms by simp
  have eq: "Q0_of Gc rho cs M = (0.8 * cs * pi * rho * Gc) * ?R ^ 2"
    by (simp add: Q0_of_def Let_def)
  show "0 < Q0_of Gc rho cs M" unfolding eq using k R2(1) by (rule mult_pos_pos)
  show "Q0_of Gc rho cs M \<le> 0.8 * cs * pi * rho * Gc"
    unfolding eq using mult_left_mono[OF R2(2), of "0.8 * cs * pi * rho * Gc"] k by simp
qed

lemma powr_tail_bounds:
  fixes c :: real
  assumes "1 \<le> c"
  shows "0 < c powr (- 1.5)" "c powr (- 1.5) \<le> 1"
proof -
  have nz: "c \<noteq> 0" using assms by linarith
  then show "0 < c powr (- 1.5)" using powr_gt_zero[of c "- 1.5"] by blast
  have "c powr (- 1.5) \<le> c powr 0" using assms by (intro powr_mono) simp_all
  also have "c powr 0 = 1" using nz by simp
  finally show "c powr (- 1.5) \<le> 1" .
qed

lemma Mlr_of_tail:
  assumes "0 < M" "0 < Qs" "1.8 * Qs \<le> Q0"
  shows "0 < Mlr_of M Q0 Qs" "Mlr_of M Q0 Qs \<le> 0.1 * M"
proof -
  let ?q = "Q0 / Qs"
  have q: "1.8 \<le> ?q" using assms by (simp add: field_simps)
  then have q1: "1 \<le> ?q / 1.8" using assms(2) by (simp add: field_simps)
  have eq: "Mlr_of M Q0 Qs = 0.1 * M * (?q / 1.8) powr (- 1.5)"
    using q by (simp add: Mlr_of_def Let_def)
  note p = powr_tail_bounds(1)[OF q1] and p1 = powr_tail_bounds(2)[OF q1]
  show "0 < Mlr_of M Q0 Qs" unfolding eq using assms(1) p by simp
  show "Mlr_of M Q0 Qs \<le> 0.1 * M"
    unfolding eq using mult_left_mono[OF p1, of "0.1 * M"] assms(1) by simp
qed

lemma impact_Q_star:
  assumes "0 < mp"
  shows "Q_star_of 1 1684000 1.8 (4 * mp) mp 1 (4 * mp * mp / (mp + 4 * mp)) b0
         = 1.5625 * Q0_of 1 1684000 1.8 (5 * mp)"
proof -
  have mu: "4 * mp * mp / (mp + 4 * mp) = 4 * mp / 5" using assms by (simp add: field_simps)
  have am: "alphamu_of 1 (4 * mp) mp = 4 * mp / 5"
    using assms by (simp add: alphamu_of_def field_simps)
  have ratio: "(4 * mp / 5) / (4 * mp / 5) = 1" using assms by simp
  have gam: "mp / (4 * mp) = 1 / 4" using assms by simp
  have M: "mp + 4 * mp = 5 * mp" by simp
  show ?thesis
    unfolding Q_star_of_def Let_def mu am ratio gam M using assms by (simp add: power2_eq_square)
qed

lemma fast_Mlr:
  assumes "0 < mp" "mp \<le> 100"
    and M: "Mlr ps = Mlr_of (mp + 4 * mp) (200000000 * (4 * mp) * mp / (mp + 4 * mp) ^ 2)
                 (Q_star_of 1 1684000 1.8 (4 * mp) mp 1 (4 * mp * mp / (mp + 4 * mp)) b0)"
  shows "0 < Mlr ps" "Mlr ps \<le> 0.1 * (5 * mp)"
proof -
  let ?QZ = "Q0_of 1 1684000 1.8 (5 * mp)"
  let ?QI = "200000000 * (4 * mp) * mp / (mp + 4 * mp) ^ 2"
  have Qs: "Q_star_of 1 1684000 1.8 (4 * mp) mp 1 (4 * mp * mp / (mp + 4 * mp)) b0 = 1.5625 * ?QZ"
    by (rule impact_Q_star[OF assms(1)])
  have Q: "?QI = 32000000" using assms(1) by (simp add: power2_eq_square field_simps)
  have "3 * (5 * mp) \<le> 4 * pi * 1684000"
    using assms(2) pi_ge_two by simp
  then have Q0: "0 < ?QZ" "?QZ \<le> 0.8 * 1.8 * pi * 1684000 * 1"
    using assms(1) by (intro Q0_of_bounds; simp)+
  have "0.8 * 1.8 * pi * 1684000 * 1 \<le> 0.8 * 1.8 * 4 * 1684000 * (1::real)"
    using pi_less_4 by simp
  with Q0(2) have Q0': "?QZ \<le> 9699840" by simp
  have le: "1.8 * (1.5625 * ?QZ) \<le> 32000000" using Q0' by simp
  have pos: "0 < 1.5625 * ?QZ" using Q0(1) by simp
  have Mp: "0 < mp + 4 * mp" using assms(1) by simp
  from Mlr_of_tail[OF Mp pos, of 32000000] le
  show "0 < Mlr ps" "Mlr ps \<le> 0.1 * (5 * mp)"
    unfolding M Qs Q by simp_all
qed

lemma impact_Mlr:
  assumes "0 < mp" "mp \<le> 100"
    and "collision_context u (impact_state mp (4 * mp)) 1 0 = Inr ps"
  shows "0 < Mlr ps" "Mlr ps \<le> 0.1 * (5 * mp)"
proof -
  from impact_context[of mp "4 * mp" u] assms(1,3)
  have M: "Mlr ps = Mlr_of (mp + 4 * mp) (200000000 * (4 * mp) * mp / (mp + 4 * mp) ^ 2)
                 (Q_star_of 1 1684000 1.8 (4 * mp) mp 1 (4 * mp * mp / (mp + 4 * mp)) 1)"
    by auto
  from fast_Mlr[OF assms(1,2) M] show "0 < Mlr ps" "Mlr ps \<le> 0.1 * (5 * mp)" .
qed

lemma erosion_dispatch:
  assumes "V_esc ps < Vi ps" and "b ps < r (particles w ! target ps)"
    and "min_frag_mass w \<le> m (particles w ! projectile ps) + m (particles w ! target ps) - Mlr ps"
    and "Mlr ps < m (particles w ! target ps)"
  shows "\<exists>k. dispatch v hs w c ps swap =
           (case add_fragments v w
                   (ps\<lparr>collision_type := k, Mlr := MAX_macro (Mlr ps) (min_frag_mass w)\<rparr>) of
              Inl e \<Rightarrow> Inl e | Inr (w', ps') \<Rightarrow> Inr (w', ps', swap))"
proof -
  let ?o = "classify (min_frag_mass w)
              (m (particles w ! projectile ps) + m (particles w ! target ps))
              (m (particles w ! target ps)) (r (particles w ! target ps)) ps"
  have "?o = SUPER_CATASTROPHIC \<or> ?o = PARTIAL_EROSION"
    using assms by (auto simp: classify_def)
  then show ?thesis
  proof
    assume "?o = SUPER_CATASTROPHIC"
    then show ?thesis unfolding dispatch_def Let_def
      by (intro exI[of _ 4]) (simp only: outcome.case)
  next
    assume "?o = PARTIAL_EROSION"
    then show ?thesis unfolding dispatch_def Let_def
      by (intro exI[of _ 3]) (simp only: outcome.case)
  qed
qed

lemma impact_dispatch:
  assumes "1.4 / 10 ^ 8 \<le> 4.5 * mp" "mp \<le> 100"
    and ctx: "collision_context u (impact_state mp (4 * mp)) 1 0 = Inr ps"
  shows "\<exists>k. dispatch v hs (impact_state mp (4 * mp)) c ps swap =
           (case add_fragments v (impact_state mp (4 * mp))
                   (ps\<lparr>collision_type := k, Mlr := MAX_macro (Mlr ps) (1.4 / 10 ^ 8)\<rparr>) of
              Inl e \<Rightarrow> Inl e | Inr (w', ps') \<Rightarrow> Inr (w', ps', swap))"
proof -
  let ?w = "impact_state mp (4 * mp)"
  have mp: "0 < mp" using assms(1) by simp
  from impact_context[of mp "4 * mp" u] mp ctx
  have f: "target ps = 1" "projectile ps = 0" "Vi ps = 20000" "b ps = 1" by auto
  note V = impact_V_esc[OF mp _ ctx]
  have "(V_esc ps) ^ 2 < 20000 ^ 2" using V(1) mp assms(2) by simp
  then have "V_esc ps < 20000" by (rule power2_less_imp_less) simp
  then have fast: "V_esc ps < Vi ps" using f(3) by simp
  note M = impact_Mlr[OF mp assms(2) ctx]
  have tg: "m (particles ?w ! target ps) = 4 * mp" "r (particles ?w ! target ps) = 3"
    "m (particles ?w ! projectile ps) = mp" "min_frag_mass ?w = 1.4 / 10 ^ 8"
    by (simp_all add: f impact_state_def body_def)
  have "\<exists>k. dispatch v hs ?w c ps swap =
           (case add_fragments v ?w
                   (ps\<lparr>collision_type := k, Mlr := MAX_macro (Mlr ps) (min_frag_mass ?w)\<rparr>) of
              Inl e \<Rightarrow> Inl e | Inr (w', ps') \<Rightarrow> Inr (w', ps', swap))"
    by (rule erosion_dispatch) (use fast f(4) M assms(1) mp in \<open>simp_all add: tg\<close>)
  then show ?thesis unfolding tg(4) .
qed

lemma impact_classify:
  assumes "1.4 / 10 ^ 8 \<le> 4.5 * mp" "5 * mp < 14 / 10 ^ 8"
    and ctx: "collision_context u (impact_state mp (4 * mp)) 1 0 = Inr ps"
  shows "\<exists>k. dispatch v hs (impact_state mp (4 * mp)) c ps swap =
           (case add_fragments v (impact_state mp (4 * mp))
                   (ps\<lparr>collision_type := k, Mlr := 1.4 / 10 ^ 8\<rparr>) of
              Inl e \<Rightarrow> Inl e | Inr (w', ps') \<Rightarrow> Inr (w', ps', swap))"
proof -
  have mp: "0 < mp" "mp \<le> 100" using assms(1,2) by simp_all
  note M = impact_Mlr[OF mp ctx]
  have clamp: "MAX_macro (Mlr ps) (1.4 / 10 ^ 8) = 1.4 / 10 ^ 8"
    using M(2) assms(2) by (simp add: MAX_macro_def)
  from impact_dispatch[OF assms(1) mp(2) ctx, of v hs c swap] show ?thesis
    unfolding clamp .
qed

lemma impact_blocks:
  assumes f: "target ps1 = 1" "projectile ps1 = 0" "Mslr ps1 = 0"
  shows "initial_mass_of (impact_state mp (4 * mp)) ps1 = 5 * mp"
    and "remaining_mass_of (impact_state mp (4 * mp)) ps1 = 5 * mp - Mlr ps1"
    and "no_frags_of (impact_state mp (4 * mp)) ps1
         = double_to_int ((5 * mp - Mlr ps1) / (1.4 / 10 ^ 8))"
proof -
  show im: "initial_mass_of (impact_state mp (4 * mp)) ps1 = 5 * mp"
    by (simp add: initial_mass_of_def f impact_state_def body_def)
  show rm: "remaining_mass_of (impact_state mp (4 * mp)) ps1 = 5 * mp - Mlr ps1"
    unfolding remaining_mass_of_def im by (simp add: f)
  show "no_frags_of (impact_state mp (4 * mp)) ps1
        = double_to_int ((5 * mp - Mlr ps1) / (1.4 / 10 ^ 8))"
    unfolding no_frags_of_def rm by (simp add: impact_state_def)
qed

lemma trunc_half:
  "double_to_int ((5 * (4.2 / 10 ^ 9) - 1.4 / 10 ^ 8) / (1.4 / 10 ^ 8)) = 0"
  by (simp add: double_to_int_def trunc_def INT_MIN_def INT_MAX_def)

lemma trunc_three_halves:
  "double_to_int ((5 * (7 / 10 ^ 9) - 1.4 / 10 ^ 8) / (1.4 / 10 ^ 8)) = 1"
  by (simp add: double_to_int_def trunc_def INT_MIN_def INT_MAX_def)

lemma wrap_int_values [simp]:
  "wrap_int 0 = 0" "wrap_int 1 = 1" "wrap_int 2 = 2"
  "wrap_int (- 2147483648) = - 2147483648" "wrap_int (- 2147483647) = - 2147483647"
  by (simp_all add: wrap_int_def)

lemma dust_add_fragments:
  assumes f: "target ps1 = 1" "projectile ps1 = 0" "Mslr ps1 = 0" "Mlr ps1 = 1.4 / 10 ^ 8"
  shows "\<exists>w' ps'. add_fragments Fragmentation dust_state ps1 = Inr (w', ps')
           \<and> map m (particles w') = [4.2 / 10 ^ 9, 1.4 / 10 ^ 8]
           \<and> tot_no_frags w' = 0 \<and> no_frags ps' = 0 \<and> target ps' = 1 \<and> projectile ps' = 0"
    and "add_fragments Shearing_Sheet dust_state ps1 = Inl Assert_no_frags"
proof -
  note bl = impact_blocks[where mp = "4.2 / 10 ^ 9", OF f(1-3), folded dust_state_def]
  have bf: "big_frags_of ps1 = 0" by (simp add: big_frags_of_def f)
  have nf: "no_frags_of dust_state ps1 = 0" unfolding bl(3) f(4) by (rule trunc_half)
  have tot: "tot_no_frags dust_state = 0" "min_frag_mass dust_state = 1.4 / 10 ^ 8"
    by (simp_all add: dust_state_def impact_state_def)
  have np: "new_particles dust_state ps1 = Some []"
    unfolding new_particles_def Let_def nf bf tot by simp
  have "\<exists>w' ps'. add_fragments Fragmentation dust_state ps1 = Inr (w', ps')"
    unfolding add_fragments_def Let_def nf bf tot np by simp
  then obtain w' ps' where r: "add_fragments Fragmentation dust_state ps1 = Inr (w', ps')"
    by blast
  have tm: "target_mass_of dust_state ps1 = 1.4 / 10 ^ 8"
    unfolding target_mass_of_def swapped_def nf by (simp add: f)
  have P: "particles dust_state
           = [body 0 0 0 (4.2 / 10 ^ 9) 1 0, body 0 1 (- 20000) (4 * (4.2 / 10 ^ 9)) 3 1]"
    by (simp add: dust_state_def impact_state_def)
  from add_fragments_result(7)[OF r] np
  have "map m (particles w')
        = map m ((particles dust_state)[target ps1 := new_target dust_state ps1] @ [])"
    by auto
  then have "map m (particles w') = [4.2 / 10 ^ 9, 1.4 / 10 ^ 8]"
    unfolding P by (simp add: f tm body_def)
  moreover have "tot_no_frags w' = 0"
    unfolding add_fragments_result(5)[OF r] nf bf tot by simp
  moreover have "no_frags ps' = 0 \<and> target ps' = 1 \<and> projectile ps' = 0"
    unfolding add_fragments_result(6)[OF r] nf bf by (simp add: f)
  ultimately show "\<exists>w' ps'. add_fragments Fragmentation dust_state ps1 = Inr (w', ps')
           \<and> map m (particles w') = [4.2 / 10 ^ 9, 1.4 / 10 ^ 8]
           \<and> tot_no_frags w' = 0 \<and> no_frags ps' = 0 \<and> target ps' = 1 \<and> projectile ps' = 0"
    using r by (intro exI[of _ w'] exI[of _ ps']) simp
  have rm: "\<not> remaining_mass_of dust_state ps1 \<le> 0" unfolding bl(2) f(4) by simp
  show "add_fragments Shearing_Sheet dust_state ps1 = Inl Assert_no_frags"
    unfolding add_fragments_def nf tot using rm by simp
qed

lemma impact_resolve_unfold:
  assumes "0 < mp"
  shows "reb_collision_resolve_fragment v hs u (impact_state mp (4 * mp)) impact_event =
    (case collision_context u (impact_state mp (4 * mp)) 1 0 of
       Inl e \<Rightarrow> Inl e
     | Inr ps \<Rightarrow>
         (case dispatch v hs (impact_state mp (4 * mp)) impact_event ps 2 of
            Inl e \<Rightarrow> Inl e
          | Inr (w', ps', swap') \<Rightarrow> Inr (print_collision_array w' ps', swap')))"
proof -
  let ?w = "impact_state mp (4 * mp)"
  have g: "(last_collision (particles ?w ! 1) = t ?w
            \<or> last_collision (particles ?w ! 0) = t ?w) = False"
    "((1::nat) < 0) = False"
    "(m (particles ?w ! 1) < m (particles ?w ! 0)) = False"
    using assms by (simp_all add: impact_state_def body_def)
  have p: "p1 impact_event = 1" "p2 impact_event = 0" by (simp_all add: impact_event_def)
  show ?thesis
    by (simp only: reb_collision_resolve_fragment_def Let_def g if_False p)
qed

lemma dust_resolve:
  shows "\<exists>w'. reb_collision_resolve_fragment Fragmentation hs u dust_state impact_event
               = Inr (w', 2)
           \<and> map m (particles w') = [4.2 / 10 ^ 9, 1.4 / 10 ^ 8] \<and> tot_no_frags w' = 0"
    and "reb_collision_resolve_fragment Shearing_Sheet hs u dust_state impact_event
         = Inl Assert_no_frags"
proof -
  have mp: "(0::real) < 4.2 / 10 ^ 9" "(1.4::real) / 10 ^ 8 \<le> 4.5 * (4.2 / 10 ^ 9)"
    "5 * (4.2 / 10 ^ 9) < (14::real) / 10 ^ 8"
    by simp_all
  from impact_context[OF mp(1), of "4 * (4.2 / 10 ^ 9)" u, folded dust_state_def] mp(1)
  obtain ps where ctx: "collision_context u dust_state 1 0 = Inr ps"
    and f: "target ps = 1" "projectile ps = 0" "Mslr ps = 0"
    by auto
  note unf = impact_resolve_unfold[OF mp(1), folded dust_state_def]
  note cls = impact_classify[OF mp(2,3), folded dust_state_def, OF ctx]
  have f4: "target (ps\<lparr>collision_type := k, Mlr := 1.4 / 10 ^ 8\<rparr>) = 1"
    "projectile (ps\<lparr>collision_type := k, Mlr := 1.4 / 10 ^ 8\<rparr>) = 0"
    "Mslr (ps\<lparr>collision_type := k, Mlr := 1.4 / 10 ^ 8\<rparr>) = 0"
    "Mlr (ps\<lparr>collision_type := k, Mlr := 1.4 / 10 ^ 8\<rparr>) = 1.4 / 10 ^ 8" for k
    using f by simp_all
  have frag: "\<exists>w' ps'. add_fragments Fragmentation dust_state
                 (ps\<lparr>collision_type := k, Mlr := 1.4 / 10 ^ 8\<rparr>) = Inr (w', ps')
           \<and> map m (particles w') = [4.2 / 10 ^ 9, 1.4 / 10 ^ 8]
           \<and> tot_no_frags w' = 0 \<and> no_frags ps' = 0 \<and> target ps' = 1 \<and> projectile ps' = 0" for k
    by (rule dust_add_fragments(1)[OF f4])
  have ss: "add_fragments Shearing_Sheet dust_state
              (ps\<lparr>collision_type := k, Mlr := 1.4 / 10 ^ 8\<rparr>) = Inl Assert_no_frags" for k
    by (rule dust_add_fragments(2)[OF f4])
  from cls[of Fragmentation hs impact_event 2] obtain k where
    dk: "dispatch Fragmentation hs dust_state impact_event ps 2 =
           (case add_fragments Fragmentation dust_state
                   (ps\<lparr>collision_type := k, Mlr := 1.4 / 10 ^ 8\<rparr>) of
              Inl e \<Rightarrow> Inl e | Inr (w', ps') \<Rightarrow> Inr (w', ps', 2))"
    by blast
  from frag[of k] obtain w' ps' where
    a: "add_fragments Fragmentation dust_state
                 (ps\<lparr>collision_type := k, Mlr := 1.4 / 10 ^ 8\<rparr>) = Inr (w', ps')"
    and w': "map m (particles w') = [4.2 / 10 ^ 9, 1.4 / 10 ^ 8]" "tot_no_frags w' = 0"
    by auto
  have d: "dispatch Fragmentation hs dust_state impact_event ps 2 = Inr (w', ps', 2)"
    unfolding dk a by simp
  have "reb_collision_resolve_fragment Fragmentation hs u dust_state impact_event
        = Inr (print_collision_array w' ps', 2)"
    unfolding unf ctx by (simp add: d)
  with w' show "\<exists>w'. reb_collision_resolve_fragment Fragmentation hs u dust_state impact_event
               = Inr (w', 2)
           \<and> map m (particles w') = [4.2 / 10 ^ 9, 1.4 / 10 ^ 8] \<and> tot_no_frags w' = 0"
    by (intro exI[of _ "print_collision_array w' ps'"]) simp
  from cls[of Shearing_Sheet hs impact_event 2] obtain k' where
    "dispatch Shearing_Sheet hs dust_state impact_event ps 2 =
           (case add_fragments Shearing_Sheet dust_state
                   (ps\<lparr>collision_type := k', Mlr := 1.4 / 10 ^ 8\<rparr>) of
              Inl e \<Rightarrow> Inl e | Inr (w', ps') \<Rightarrow> Inr (w', ps', 2))"
    by blast
  then have "dispatch Shearing_Sheet hs dust_state impact_event ps 2 = Inl Assert_no_frags"
    unfolding ss by simp
  then show "reb_collision_resolve_fragment Shearing_Sheet hs u dust_state impact_event
         = Inl Assert_no_frags"
    unfolding unf ctx by simp
qed

lemma correct_x [simp]:
  "x (correct_target xoff voff M q) = x q + fst xoff * m q / M"
  "x (correct_body xoff voff M q) = x q + fst xoff * (m q / M)"
  by (simp_all add: correct_target_def correct_body_def Let_def split: prod.splits)

lemma sqrt_4e8_sq: "sqrt (20000 ^ 2) = (20000::real)"
  by (simp only: real_sqrt_abs abs_numeral)

lemma grain_add_fragments:
  assumes f: "target ps1 = 1" "projectile ps1 = 0" "Mslr ps1 = 0" "Mlr ps1 = 1.4 / 10 ^ 8"
    and g: "Vix ps1 = - 20000" "vrel ps1 = 20000" "separation_distance ps1 = 16"
    and h: "Viy ps1 = 0" "Viz ps1 = 0" "dx ps1 = 0" "dy ps1 = 1" "dz ps1 = 0"
    and e: "(V_esc ps1) ^ 2 = (7 / 10 ^ 9 + 4 * (7 / 10 ^ 9)) / 2"
  shows "\<exists>w' ps'. add_fragments Fragmentation grain_state ps1 = Inr (w', ps')
           \<and> map m (particles w') = [7 / 10 ^ 9, 2.1 / 10 ^ 8, 1.4 / 10 ^ 8]
           \<and> map x (particles w') = [0, 3.84, - 13.44]
           \<and> map hash (particles w') = [NAMED 0, NAMED 1, FRAG 1]
           \<and> tot_no_frags w' = 1 \<and> no_frags ps' = 1 \<and> target ps' = 1 \<and> projectile ps' = 0"
proof -
  note bl = impact_blocks[where mp = "7 / 10 ^ 9", OF f(1-3), folded grain_state_def]
  have bf: "big_frags_of ps1 = 0" by (simp add: big_frags_of_def f)
  have nf: "no_frags_of grain_state ps1 = 1" unfolding bl(3) f(4) by (rule trunc_three_halves)
  have tot: "tot_no_frags grain_state = 0" "min_frag_mass grain_state = 1.4 / 10 ^ 8"
    by (simp_all add: grain_state_def impact_state_def)
  have P: "particles grain_state
           = [body 0 0 0 (7 / 10 ^ 9) 1 0, body 0 1 (- 20000) (4 * (7 / 10 ^ 9)) 3 1]"
    by (simp add: grain_state_def impact_state_def)
  have rm: "remaining_mass_of grain_state ps1 = 5 * (7 / 10 ^ 9) - 1.4 / 10 ^ 8"
    unfolding bl(2) f(4) ..
  have sw: "swapped grain_state ps1" unfolding swapped_def nf rm by (simp add: f)
  have fm: "frag_mass_of grain_state ps1 = 1.4 / 10 ^ 8"
    unfolding frag_mass_of_def using sw by (simp add: f)
  have tm: "target_mass_of grain_state ps1 = 2.1 / 10 ^ 8"
    unfolding target_mass_of_def nf rm using sw by simp
  have cx: "x (com_of grain_state ps1) = 0"
    unfolding com_of_def P by (simp add: f reb_particle_com_of_pair_def body_def)
  have rt: "r (particles grain_state ! target ps1) + r (particles grain_state ! projectile ps1) = 4"
    unfolding P by (simp add: f body_def)
  have G1: "G grain_state = 1" by (simp add: grain_state_def impact_state_def)
  have "\<exists>fv. fragment_velocity grain_state ps1 (initial_mass_of grain_state ps1) 4 = Some fv"
    unfolding fragment_velocity_def Let_def e bl(1) G1 g by simp
  then obtain fv where
    fv: "fragment_velocity grain_state ps1 (initial_mass_of grain_state ps1) 4 = Some fv" ..
  have u: "unit_vi ps1 = Some (- 1, 0, 0)" unfolding unit_vi_def g h by simp
  have pn: "plane_normal ps1 = Some (0, 0, - 1)"
    unfolding plane_normal_def Let_def g h get_mag_def by (simp add: sqrt_4e8_sq)
  have ip: "in_plane ps1 = Some (0, 1, 0)"
    unfolding in_plane_def pn Let_def g h get_mag_def by (simp add: sqrt_4e8_sq)
  define F where "F = fragment grain_state ps1 (com_of grain_state ps1)
      (density_of (particles grain_state ! target ps1)) fv (- 1, 0, 0) (0, 1, 0)
      (frag_mass_of grain_state ps1) ((2 * pi) / of_int 1) 1 1"
  have np: "new_particles grain_state ps1 = Some [F]"
    unfolding new_particles_def Let_def nf bf tot rt fv u ip F_def by simp
  have Fx: "x F = - 16"
    unfolding F_def fragment_def Let_def
    by (simp add: cx g)
  have Fm: "m F = 1.4 / 10 ^ 8" "hash F = FRAG 1" unfolding F_def by (simp_all add: fm)
  define T where "T = new_target grain_state ps1"
  have Tx: "x T = 0" "m T = 2.1 / 10 ^ 8" "hash T = NAMED 1"
    unfolding T_def by (simp_all add: new_target_def Let_def cx tm P f body_def)
  have xo: "fst (xoff_of grain_state ps1 [F]) = 6.4"
    unfolding xoff_of_def Let_def bl(1) T_def[symmetric]
    by (simp add: msum_def cx Tx Fx Fm)
  define xo' vo' where "xo' = xoff_of grain_state ps1 [F]" and "vo' = voff_of grain_state ps1 [F]"
  define M where "M = initial_mass_of grain_state ps1"
  have M: "M = 5 * (7 / 10 ^ 9)" unfolding M_def bl(1) ..
  let ?P3 = "[body 0 0 0 (7 / 10 ^ 9) 1 0, correct_target xo' vo' M T, correct_body xo' vo' M F]"
  have r: "add_fragments Fragmentation grain_state ps1
           = Inr (grain_state\<lparr>particles := ?P3, tot_no_frags := 1\<rparr>, ps1\<lparr>no_frags := 1\<rparr>)"
    unfolding add_fragments_def Let_def nf bf tot np P option.case
      T_def[symmetric] xo'_def[symmetric] vo'_def[symmetric] M_def[symmetric]
    by (simp add: f wrap_into_box_def Tx Fm body_def)
  have "map x ?P3 = [0, 3.84, - 13.44]"
    by (simp add: body_def Tx Fx Fm xo xo'_def M)
  moreover have "map m ?P3 = [7 / 10 ^ 9, 2.1 / 10 ^ 8, 1.4 / 10 ^ 8]"
    by (simp add: body_def Tx Fm)
  moreover have "map hash ?P3 = [NAMED 0, NAMED 1, FRAG 1]"
    by (simp add: body_def Tx Fm)
  ultimately show ?thesis
    unfolding r by (simp add: f)
qed

lemma grain_resolve:
  "\<exists>w'. reb_collision_resolve_fragment Fragmentation hs u grain_state impact_event
               = Inr (w', 2)
           \<and> map m (particles w') = [7 / 10 ^ 9, 2.1 / 10 ^ 8, 1.4 / 10 ^ 8]
           \<and> map x (particles w') = [0, 3.84, - 13.44]
           \<and> map hash (particles w') = [NAMED 0, NAMED 1, FRAG 1]
           \<and> tot_no_frags w' = 1"
proof -
  have mp: "(0::real) < 7 / 10 ^ 9" "(1.4::real) / 10 ^ 8 \<le> 4.5 * (7 / 10 ^ 9)"
    "5 * (7 / 10 ^ 9) < (14::real) / 10 ^ 8" "(0::real) < 4 * (7 / 10 ^ 9)"
    by simp_all
  from impact_context[OF mp(1), of "4 * (7 / 10 ^ 9)" u, folded grain_state_def] mp(1)
  obtain ps where ctx: "collision_context u grain_state 1 0 = Inr ps"
    and f: "target ps = 1" "projectile ps = 0" "Mslr ps = 0"
      "Vix ps = - 20000" "vrel ps = 20000" "separation_distance ps = 16"
      "Viy ps = 0" "Viz ps = 0" "dx ps = 0" "dy ps = 1" "dz ps = 0"
    by auto
  note V = impact_V_esc(1)[OF mp(1,4), folded grain_state_def, OF ctx]
  note unf = impact_resolve_unfold[OF mp(1), folded grain_state_def]
  note cls = impact_classify[OF mp(2,3), folded grain_state_def, OF ctx]
  have f4: "target (ps\<lparr>collision_type := k, Mlr := 1.4 / 10 ^ 8\<rparr>) = 1"
    "projectile (ps\<lparr>collision_type := k, Mlr := 1.4 / 10 ^ 8\<rparr>) = 0"
    "Mslr (ps\<lparr>collision_type := k, Mlr := 1.4 / 10 ^ 8\<rparr>) = 0"
    "Mlr (ps\<lparr>collision_type := k, Mlr := 1.4 / 10 ^ 8\<rparr>) = 1.4 / 10 ^ 8"
    "Vix (ps\<lparr>collision_type := k, Mlr := 1.4 / 10 ^ 8\<rparr>) = - 20000"
    "vrel (ps\<lparr>collision_type := k, Mlr := 1.4 / 10 ^ 8\<rparr>) = 20000"
    "separation_distance (ps\<lparr>collision_type := k, Mlr := 1.4 / 10 ^ 8\<rparr>) = 16"
    "Viy (ps\<lparr>collision_type := k, Mlr := 1.4 / 10 ^ 8\<rparr>) = 0"
    "Viz (ps\<lparr>collision_type := k, Mlr := 1.4 / 10 ^ 8\<rparr>) = 0"
    "dx (ps\<lparr>collision_type := k, Mlr := 1.4 / 10 ^ 8\<rparr>) = 0"
    "dy (ps\<lparr>collision_type := k, Mlr := 1.4 / 10 ^ 8\<rparr>) = 1"
    "dz (ps\<lparr>collision_type := k, Mlr := 1.4 / 10 ^ 8\<rparr>) = 0"
    "(V_esc (ps\<lparr>collision_type := k, Mlr := 1.4 / 10 ^ 8\<rparr>)) ^ 2
       = (7 / 10 ^ 9 + 4 * (7 / 10 ^ 9)) / 2" for k
    using f V by simp_all
  have frag: "\<exists>w' ps'. add_fragments Fragmentation grain_state
                 (ps\<lparr>collision_type := k, Mlr := 1.4 / 10 ^ 8\<rparr>) = Inr (w', ps')
           \<and> map m (particles w') = [7 / 10 ^ 9, 2.1 / 10 ^ 8, 1.4 / 10 ^ 8]
           \<and> map x (particles w') = [0, 3.84, - 13.44]
           \<and> map hash (particles w') = [NAMED 0, NAMED 1, FRAG 1]
           \<and> tot_no_frags w' = 1 \<and> no_frags ps' = 1 \<and> target ps' = 1 \<and> projectile ps' = 0"
    for k
    by (rule grain_add_fragments[OF f4])
  from cls[of Fragmentation hs impact_event 2] obtain k where
    dk: "dispatch Fragmentation hs grain_state impact_event ps 2 =
           (case add_fragments Fragmentation grain_state
                   (ps\<lparr>collision_type := k, Mlr := 1.4 / 10 ^ 8\<rparr>) of
              Inl e \<Rightarrow> Inl e | Inr (w', ps') \<Rightarrow> Inr (w', ps', 2))"
    by blast
  from frag[of k] obtain w' ps' where
    a: "add_fragments Fragmentation grain_state
                 (ps\<lparr>collision_type := k, Mlr := 1.4 / 10 ^ 8\<rparr>) = Inr (w', ps')"
    and w': "map m (particles w') = [7 / 10 ^ 9, 2.1 / 10 ^ 8, 1.4 / 10 ^ 8]"
      "map x (particles w') = [0, 3.84, - 13.44]"
      "map hash (particles w') = [NAMED 0, NAMED 1, FRAG 1]"
      "tot_no_frags w' = 1"
    by auto
  have d: "dispatch Fragmentation hs grain_state impact_event ps 2 = Inr (w', ps', 2)"
    unfolding dk a by simp
  have "reb_collision_resolve_fragment Fragmentation hs u grain_state impact_event
        = Inr (print_collision_array w' ps', 2)"
    unfolding unf ctx by (simp add: d)
  with w' show ?thesis
    by (intro exI[of _ "print_collision_array w' ps'"]) simp
qed

section \<open>Lemmas on further example events\<close>


lemma double_to_int_large: "2147483648 \<le> q \<Longrightarrow> double_to_int q = INT_MIN"
proof -
  assume q: "2147483648 \<le> q"
  then have "(2147483648::int) \<le> \<lfloor>q\<rfloor>" by (simp add: le_floor_iff)
  with q show ?thesis by (simp add: double_to_int_def trunc_def INT_MIN_def INT_MAX_def)
qed

lemma add_fragments_overflow:
  assumes bf: "big_frags_of ps1 = 0" and nf: "no_frags_of w ps1 = INT_MIN"
    and tot: "tot_no_frags w = 0"
  shows "\<exists>P. add_fragments Fragmentation w ps1
               = Inr (w\<lparr>particles := P, tot_no_frags := INT_MIN\<rparr>, ps1\<lparr>no_frags := INT_MIN\<rparr>)
             \<and> length P = length (particles w)"
proof -
  have np: "new_particles w ps1 = Some []"
    unfolding new_particles_def Let_def nf bf tot by (simp add: INT_MIN_def)
  show ?thesis
    unfolding add_fragments_def Let_def nf bf tot np
    by (simp add: INT_MIN_def) (rule exI, rule conjI, rule refl, simp)
qed

lemma heavy_resolve:
  shows "\<exists>w'. reb_collision_resolve_fragment Fragmentation hs u heavy_state impact_event
               = Inr (w', 2)
           \<and> tot_no_frags w' = - 2147483648 \<and> length (particles w') = 2"
    and "reb_collision_resolve_fragment Shearing_Sheet hs u heavy_state impact_event
         = Inl Assert_no_frags"
proof -
  have mp: "(0::real) < 10" "(1.4::real) / 10 ^ 8 \<le> 4.5 * 10" "(10::real) \<le> 100"
    by simp_all
  from impact_context[OF mp(1), of "4 * 10" u, folded heavy_state_def]
  obtain ps where ctx: "collision_context u heavy_state 1 0 = Inr ps"
    and f: "target ps = 1" "projectile ps = 0" "Mslr ps = 0"
    by auto
  note unf = impact_resolve_unfold[OF mp(1), folded heavy_state_def]
  note M = impact_Mlr[OF mp(1,3), folded heavy_state_def, OF ctx]
  define ps1 where "ps1 k = ps\<lparr>collision_type := k, Mlr := MAX_macro (Mlr ps) (1.4 / 10 ^ 8)\<rparr>"
    for k :: int
  note cls = impact_dispatch[OF mp(2,3), folded heavy_state_def, OF ctx, folded ps1_def]
  have f1: "target (ps1 k) = 1" "projectile (ps1 k) = 0" "Mslr (ps1 k) = 0" for k
    using f by (simp_all add: ps1_def)
  have Ml: "Mlr (ps1 k) \<le> 5" for k using M by (simp add: ps1_def MAX_macro_def)
  note bl = impact_blocks[where mp = 10, OF f1, folded heavy_state_def]
  have bf: "big_frags_of (ps1 k) = 0" for k by (simp add: big_frags_of_def f1)
  have "2147483648 \<le> (5 * 10 - Mlr (ps1 k)) / (1.4 / 10 ^ 8)" for k
    using Ml[of k] by (simp add: field_simps)
  then have nf: "no_frags_of heavy_state (ps1 k) = INT_MIN" for k
    unfolding bl(3) by (rule double_to_int_large)
  have tot: "tot_no_frags heavy_state = 0" "min_frag_mass heavy_state = 1.4 / 10 ^ 8"
    "length (particles heavy_state) = 2"
    by (simp_all add: heavy_state_def impact_state_def)
  from cls[of Fragmentation hs impact_event 2] obtain k where
    dk: "dispatch Fragmentation hs heavy_state impact_event ps 2 =
           (case add_fragments Fragmentation heavy_state (ps1 k) of
              Inl e \<Rightarrow> Inl e | Inr (w', ps') \<Rightarrow> Inr (w', ps', 2))"
    by blast
  from add_fragments_overflow[OF bf nf tot(1), of k] obtain P where
    a: "add_fragments Fragmentation heavy_state (ps1 k)
        = Inr (heavy_state\<lparr>particles := P, tot_no_frags := INT_MIN\<rparr>, (ps1 k)\<lparr>no_frags := INT_MIN\<rparr>)"
    and P: "length P = length (particles heavy_state)"
    by blast
  have "reb_collision_resolve_fragment Fragmentation hs u heavy_state impact_event
        = Inr (print_collision_array (heavy_state\<lparr>particles := P, tot_no_frags := INT_MIN\<rparr>)
                 ((ps1 k)\<lparr>no_frags := INT_MIN\<rparr>), 2)"
    unfolding unf ctx by (simp add: dk a)
  then show "\<exists>w'. reb_collision_resolve_fragment Fragmentation hs u heavy_state impact_event
               = Inr (w', 2)
           \<and> tot_no_frags w' = - 2147483648 \<and> length (particles w') = 2"
    using P tot(3) by (simp add: INT_MIN_def)
  from cls[of Shearing_Sheet hs impact_event 2] obtain k' where
    dk': "dispatch Shearing_Sheet hs heavy_state impact_event ps 2 =
           (case add_fragments Shearing_Sheet heavy_state (ps1 k') of
              Inl e \<Rightarrow> Inl e | Inr (w', ps') \<Rightarrow> Inr (w', ps', 2))"
    by blast
  have rm: "\<not> remaining_mass_of heavy_state (ps1 k') \<le> 0"
    unfolding bl(2) using Ml[of k'] by simp
  have "add_fragments Shearing_Sheet heavy_state (ps1 k') = Inl Assert_no_frags"
    unfolding add_fragments_def nf tot using rm by (simp add: INT_MIN_def)
  then have "dispatch Shearing_Sheet hs heavy_state impact_event ps 2 = Inl Assert_no_frags"
    unfolding dk' by simp
  then show "reb_collision_resolve_fragment Shearing_Sheet hs u heavy_state impact_event
         = Inl Assert_no_frags"
    unfolding unf ctx by simp
qed














section \<open>Lemmas on radii and directions\<close>

lemma merged_radius:
  fixes mt M rt :: real
  assumes "0 < mt" "0 < M" "0 < rt"
  shows "((3 * M) / (4 * pi * (mt / (4 / 3 * pi * rt ^ 3)))) powr (1 / 3)
         = rt * (M / mt) powr (1 / 3)"
proof -
  have "(3 * M) / (4 * pi * (mt / (4 / 3 * pi * rt ^ 3))) = rt ^ 3 * (M / mt)"
    using assms by simp
  moreover have "(rt ^ 3 * (M / mt)) powr (1 / 3) = (rt ^ 3) powr (1 / 3) * (M / mt) powr (1 / 3)"
    by (rule powr_mult)
  moreover have "(rt ^ 3) powr (1 / 3) = rt"
  proof -
    have "rt ^ 3 = rt powr 3" using assms(3) powr_realpow[of rt 3] by simp
    then have "(rt ^ 3) powr (1 / 3) = rt powr (3 * (1 / 3))" by (simp only: powr_powr)
    then show ?thesis using assms(3) by simp
  qed
  ultimately show ?thesis by (simp only:)
qed


lemma unit_length:
  fixes a p q s :: real
  assumes "a = sqrt (p ^ 2 + q ^ 2 + s ^ 2)" "a \<noteq> 0"
  shows "(p / a) ^ 2 + (q / a) ^ 2 + (s / a) ^ 2 = 1"
proof -
  have sq: "a ^ 2 = p ^ 2 + q ^ 2 + s ^ 2" unfolding assms(1) by simp
  have nz: "a ^ 2 \<noteq> 0" using assms(2) by simp
  have "(p / a) ^ 2 + (q / a) ^ 2 + (s / a) ^ 2 = (p ^ 2 + q ^ 2 + s ^ 2) / a ^ 2"
    by (simp add: power_divide add_divide_distrib)
  also have "\<dots> = a ^ 2 / a ^ 2" unfolding sq ..
  also have "\<dots> = 1" using nz by simp
  finally show ?thesis .
qed

lemma circle_speed:
  fixes fv th :: real
  assumes u: "ux ^ 2 + uy ^ 2 + uz ^ 2 = 1" and ov: "ox ^ 2 + oy ^ 2 + oz ^ 2 = 1"
    and orth: "ux * ox + uy * oy + uz * oz = 0"
  shows "(fv * (cos th * ux + sin th * ox)) ^ 2 + (fv * (cos th * uy + sin th * oy)) ^ 2
         + (fv * (cos th * uz + sin th * oz)) ^ 2 = fv ^ 2"
proof -
  have "(fv * (cos th * ux + sin th * ox)) ^ 2 + (fv * (cos th * uy + sin th * oy)) ^ 2
         + (fv * (cos th * uz + sin th * oz)) ^ 2
        = fv ^ 2 * ((cos th) ^ 2 * (ux ^ 2 + uy ^ 2 + uz ^ 2)
                    + (sin th) ^ 2 * (ox ^ 2 + oy ^ 2 + oz ^ 2)
                    + 2 * cos th * sin th * (ux * ox + uy * oy + uz * oz))"
    by (simp add: power2_eq_square algebra_simps)
  also have "\<dots> = fv ^ 2 * ((cos th) ^ 2 + (sin th) ^ 2)" unfolding u ov orth by simp
  finally show ?thesis by simp
qed

lemma unit_vi_length:
  assumes "unit_vi ps = Some (ux, uy, uz)"
    and "vrel ps = sqrt ((Vix ps) ^ 2 + (Viy ps) ^ 2 + (Viz ps) ^ 2)"
  shows "ux ^ 2 + uy ^ 2 + uz ^ 2 = 1"
proof -
  from assms(1) have nz: "vrel ps \<noteq> 0"
    and u: "ux = Vix ps / vrel ps" "uy = Viy ps / vrel ps" "uz = Viz ps / vrel ps"
    by (auto simp: unit_vi_def split: if_splits)
  show ?thesis unfolding u by (rule unit_length[OF assms(2) nz])
qed

lemma in_plane_length:
  assumes "in_plane ps = Some (ox, oy, oz)" and "unit_vi ps = Some (ux, uy, uz)"
  shows "ox ^ 2 + oy ^ 2 + oz ^ 2 = 1" and "ux * ox + uy * oy + uz * oz = 0"
proof -
  from assms(1) obtain zx zy zz where z: "plane_normal ps = Some (zx, zy, zz)"
    by (auto simp: in_plane_def split: option.splits)
  define a where "a = zy * Viz ps - zz * Viy ps"
  define b where "b = zz * Vix ps - zx * Viz ps"
  define c where "c = zx * Viy ps - zy * Vix ps"
  from assms(1) have nz: "get_mag a b c \<noteq> 0"
    and o: "ox = a / get_mag a b c" "oy = b / get_mag a b c" "oz = c / get_mag a b c"
    unfolding in_plane_def z a_def b_def c_def
    by (auto simp: Let_def split: if_splits)
  have "get_mag a b c = sqrt (a ^ 2 + b ^ 2 + c ^ 2)" by (simp add: get_mag_def)
  from unit_length[OF this nz] show "ox ^ 2 + oy ^ 2 + oz ^ 2 = 1" unfolding o .
  from assms(2) have u: "ux = Vix ps / vrel ps" "uy = Viy ps / vrel ps" "uz = Viz ps / vrel ps"
    by (auto simp: unit_vi_def split: if_splits)
  have "Vix ps * a + Viy ps * b + Viz ps * c = 0"
    unfolding a_def b_def c_def by (simp add: algebra_simps)
  then have "(Vix ps * a + Viy ps * b + Viz ps * c) / (vrel ps * get_mag a b c) = 0" by simp
  then show "ux * ox + uy * oy + uz * oz = 0"
    unfolding u o by (simp add: add_divide_distrib)
qed

lemma context_vrel:
  assumes "collision_context u w i j = Inr ps"
  shows "vrel ps = sqrt ((Vix ps) ^ 2 + (Viy ps) ^ 2 + (Viz ps) ^ 2)"
  using assms
  by (auto simp: collision_context_def Let_def init_collision_params_def make_vector_def
      get_dot_def power2_eq_square split: if_splits)

lemma ejection_speed_value:
  assumes "collision_context u w i j = Inr ps"
    and "0 < G w" and "0 < m (particles w ! i)" and "0 < m (particles w ! j)"
    and "0 < r (particles w ! i)" and "0 < r (particles w ! j)"
    and "ps' = ps\<lparr>Mlr := a, Mslr := c, collision_type := k\<rparr>"
  shows "fragment_velocity w ps' (initial_mass_of w ps')
           (r (particles w ! target ps') + r (particles w ! projectile ps'))
         = Some (sqrt 0.35 * V_esc ps)"
    and "0 < sqrt 0.35 * V_esc ps"
    and "(sqrt 0.35 * V_esc ps) ^ 2 = 0.35 * (V_esc ps) ^ 2"
proof -
  let ?R = "r (particles w ! i) + r (particles w ! j)"
  let ?M = "m (particles w ! i) + m (particles w ! j)"
  have R: "0 < ?R" using assms by simp
  have tp: "target ps' = i" "projectile ps' = j" "V_esc ps' = V_esc ps"
    "separation_distance ps' = 4 * ?R"
    using context_fields(1,2,4)[OF assms(1)] assms(7) by (simp_all add: add.commute)
  have V2: "(V_esc ps) ^ 2 = 2 * G w * ?M / ?R" and Vpos: "0 < V_esc ps"
    using V_esc_sq[OF assms(1-6)] by simp_all
  have rad: "1.1 * (V_esc ps) ^ 2 - 2 * G w * ?M * (1 / ?R - 1 / (4 * ?R))
             = 0.35 * (V_esc ps) ^ 2"
    unfolding V2 using radicand_algebra[OF R] by simp
  have "sqrt (0.35 * (V_esc ps) ^ 2) = sqrt 0.35 * sqrt ((V_esc ps) ^ 2)"
    by (rule real_sqrt_mult)
  also have "\<dots> = sqrt 0.35 * V_esc ps"
    using Vpos by simp
  finally have s: "sqrt (0.35 * (V_esc ps) ^ 2) = sqrt 0.35 * V_esc ps" .
  have "fragment_velocity w ps' (initial_mass_of w ps') ?R = Some (sqrt (0.35 * (V_esc ps) ^ 2))"
    unfolding fragment_velocity_def initial_mass_of_def tp Let_def rad using R by simp
  then show "fragment_velocity w ps' (initial_mass_of w ps')
           (r (particles w ! target ps') + r (particles w ! projectile ps'))
         = Some (sqrt 0.35 * V_esc ps)"
    unfolding tp s .
  show "0 < sqrt 0.35 * V_esc ps" using Vpos by simp
  show "(sqrt 0.35 * V_esc ps) ^ 2 = 0.35 * (V_esc ps) ^ 2"
    by (simp add: power_mult_distrib)
qed

section \<open>The classifier\<close>

text \<open>
  C3. The classifier is a total function of the derived context, so it reaches exactly
  one outcome; the six outcomes are told apart by the rules in their order. A merge is
  the outcome exactly when \<open>Vi \<le> V_esc\<close>. Otherwise, with \<open>b < r_target\<close>: an
  effective merge exactly when \<open>Mtot - Mlr < min_frag_mass\<close>; else super-catastrophic
  exactly when \<open>Mlr < m_target\<close> and \<open>Mlr \<le> 0.1 m_target\<close>, partial erosion exactly
  when \<open>Mlr < m_target\<close> and \<open>Mlr > 0.1 m_target\<close>, partial accretion exactly when
  \<open>Mlr \<ge> m_target\<close>. With \<open>b \<ge> r_target\<close> the event goes to the hit-and-run
  sub-resolver.
\<close>

theorem classifier_total:
  "(classify mfm M_tot targ_m targ_r ps = SIMPLY_MERGED \<longleftrightarrow> Vi ps \<le> V_esc ps) \<and>
   (classify mfm M_tot targ_m targ_r ps = EFFECTIVELY_MERGED \<longleftrightarrow>
      V_esc ps < Vi ps \<and> b ps < targ_r \<and> M_tot - Mlr ps < mfm) \<and>
   (classify mfm M_tot targ_m targ_r ps = SUPER_CATASTROPHIC \<longleftrightarrow>
      V_esc ps < Vi ps \<and> b ps < targ_r \<and> mfm \<le> M_tot - Mlr ps \<and> Mlr ps < targ_m
      \<and> Mlr ps \<le> 0.1 * targ_m) \<and>
   (classify mfm M_tot targ_m targ_r ps = PARTIAL_EROSION \<longleftrightarrow>
      V_esc ps < Vi ps \<and> b ps < targ_r \<and> mfm \<le> M_tot - Mlr ps \<and> Mlr ps < targ_m
      \<and> 0.1 * targ_m < Mlr ps) \<and>
   (classify mfm M_tot targ_m targ_r ps = PARTIAL_ACCRETION \<longleftrightarrow>
      V_esc ps < Vi ps \<and> b ps < targ_r \<and> mfm \<le> M_tot - Mlr ps \<and> targ_m \<le> Mlr ps) \<and>
   (classify mfm M_tot targ_m targ_r ps = GRAZING \<longleftrightarrow> V_esc ps < Vi ps \<and> targ_r \<le> b ps)"
  by (auto simp: classify_def)

section \<open>The largest remnant\<close>

text \<open>
  C5. The mass \<open>Mlr\<close> that the builder stores is \<open>Mtot (1 - 0.5 Q/Q*)\<close> when
  \<open>Q/Q* < 1.8\<close> and \<open>0.1 Mtot (Q/(1.8 Q*))\<close> to the power \<open>-1.5\<close> otherwise, where
  \<open>Q*\<close> is \<open>(mu/alpha_mu)\<close> to the power \<open>1.5\<close> times \<open>(1+gamma)^2/(4 gamma)\<close>
  times \<open>Q0\<close>, except that \<open>alpha = 0\<close> gives the sentinel and a head-on encounter
  of equal masses gives \<open>Q0\<close> (the latter wins when both hold).
\<close>

theorem largest_remnant_formula:
  assumes "collision_context u w i j = Inr ps"
  shows "Mlr ps =
    spec_Mlr (m (particles w ! i) + m (particles w ! j)) (Q ps)
      (spec_Q_star (mu ps)
         (alphamu_of (alpha_of (l ps) (r (particles w ! j)))
            (m (particles w ! i)) (m (particles w ! j)))
         (m (particles w ! j) / m (particles w ! i))
         (Q0_of (G w) (rho1 ps) (cstar ps) (m (particles w ! i) + m (particles w ! j)))
         (alpha_of (l ps) (r (particles w ! j)) = 0)
         (b ps = 0 \<and> m (particles w ! j) = m (particles w ! i)))"
  using context_fields(10)[OF assms]
  by (simp add: Mlr_of_spec Q_star_of_spec add.commute)

theorem largest_remnant_formula_witness:
  "\<exists>ps. collision_context 0 example_state 1 0 = Inr ps \<and>
     Mlr ps =
       spec_Mlr (m (particles example_state ! 1) + m (particles example_state ! 0)) (Q ps)
         (spec_Q_star (mu ps)
            (alphamu_of (alpha_of (l ps) (r (particles example_state ! 0)))
               (m (particles example_state ! 1)) (m (particles example_state ! 0)))
            (m (particles example_state ! 0) / m (particles example_state ! 1))
            (Q0_of (G example_state) (rho1 ps) (cstar ps)
               (m (particles example_state ! 1) + m (particles example_state ! 0)))
            (alpha_of (l ps) (r (particles example_state ! 0)) = 0)
            (b ps = 0 \<and> m (particles example_state ! 0) = m (particles example_state ! 1)))"
proof -
  from example_context obtain ps where ps: "collision_context 0 example_state 1 0 = Inr ps" ..
  from largest_remnant_formula[OF ps] ps show ?thesis by blast
qed

section \<open>The effect of a merge\<close>

text \<open>
  C6. For a target and a projectile in two different slots, with positive masses and a
  target of positive radius, \<open>merge\<close> replaces the target by the target with: velocity
  and position the mass-weighted means of the two bodies, mass the sum of the two
  masses, radius \<open>(3 M / (4 pi rho))\<close> to the power \<open>1/3\<close> for the summed mass \<open>M\<close>
  and the density \<open>rho = m / ((4/3) pi r^3)\<close> of the target before the merge (which is
  the radius of the target times the cube root of \<open>M / m\<close>), and the time of the last
  collision the current time. Nothing else of the state changes: every other field of
  the target, every other slot of the array (the projectile's among them) and every
  other component of the state is as before.
\<close>

theorem merge_effect:
  assumes "target ps < length (particles w)" and "target ps \<noteq> projectile ps"
    and "0 < m (particles w ! target ps)" and "0 < m (particles w ! projectile ps)"
    and "0 < r (particles w ! target ps)"
  shows "merge w ps =
    (let tgt = particles w ! target ps; prj = particles w ! projectile ps
     in w\<lparr>particles := (particles w)[target ps := tgt
         \<lparr>vx := (vx tgt * m tgt + vx prj * m prj) / (m tgt + m prj),
          vy := (vy tgt * m tgt + vy prj * m prj) / (m tgt + m prj),
          vz := (vz tgt * m tgt + vz prj * m prj) / (m tgt + m prj),
          x := (x tgt * m tgt + x prj * m prj) / (m tgt + m prj),
          y := (y tgt * m tgt + y prj * m prj) / (m tgt + m prj),
          z := (z tgt * m tgt + z prj * m prj) / (m tgt + m prj),
          m := m tgt + m prj,
          r := ((3 * (m tgt + m prj)) / (4 * pi * (m tgt / (4 / 3 * pi * (r tgt) ^ 3))))
                 powr (1 / 3),
          last_collision := t w\<rparr>]\<rparr>)
    \<and> r (particles (merge w ps) ! target ps)
        = r (particles w ! target ps)
          * ((m (particles w ! target ps) + m (particles w ! projectile ps))
             / m (particles w ! target ps)) powr (1 / 3)
    \<and> particles (merge w ps) ! projectile ps = particles w ! projectile ps"
proof -
  let ?tgt = "particles w ! target ps" and ?prj = "particles w ! projectile ps"
  have eq: "merge w ps =
    w\<lparr>particles := (particles w)[target ps := ?tgt
         \<lparr>vx := (vx ?tgt * m ?tgt + vx ?prj * m ?prj) / (m ?tgt + m ?prj),
          vy := (vy ?tgt * m ?tgt + vy ?prj * m ?prj) / (m ?tgt + m ?prj),
          vz := (vz ?tgt * m ?tgt + vz ?prj * m ?prj) / (m ?tgt + m ?prj),
          x := (x ?tgt * m ?tgt + x ?prj * m ?prj) / (m ?tgt + m ?prj),
          y := (y ?tgt * m ?tgt + y ?prj * m ?prj) / (m ?tgt + m ?prj),
          z := (z ?tgt * m ?tgt + z ?prj * m ?prj) / (m ?tgt + m ?prj),
          m := m ?tgt + m ?prj,
          r := ((3 * (m ?tgt + m ?prj)) / (4 * pi * (m ?tgt / (4 / 3 * pi * (r ?tgt) ^ 3))))
                 powr (1 / 3),
          last_collision := t w\<rparr>]\<rparr>"
    unfolding density_of_def[symmetric] merge_def Let_def using assms(1,2)
    by (simp add: assign_updated assign_first[of _ _ _ "particles w"])
  have M: "0 < m ?tgt + m ?prj" using assms(3,4) by simp
  have "r (particles (merge w ps) ! target ps)
        = ((3 * (m ?tgt + m ?prj)) / (4 * pi * (m ?tgt / (4 / 3 * pi * (r ?tgt) ^ 3))))
            powr (1 / 3)"
    unfolding eq using assms(1) by simp
  then have rad: "r (particles (merge w ps) ! target ps)
        = r ?tgt * ((m ?tgt + m ?prj) / m ?tgt) powr (1 / 3)"
    unfolding merged_radius[OF assms(3) M assms(5)] .
  have frame: "particles (merge w ps) ! projectile ps = ?prj"
    unfolding eq using assms(2) by simp
  from eq rad frame show ?thesis by (simp only: Let_def)
qed

theorem merge_effect_witness:
  "(1::nat) < length (particles example_state) \<and> (1::nat) \<noteq> 0
   \<and> 0 < m (particles example_state ! 1) \<and> 0 < m (particles example_state ! 0)
   \<and> 0 < r (particles example_state ! 1)
   \<and> particles (merge example_state (init_collision_params\<lparr>target := 1, projectile := 0\<rparr>))
     = [body 0 0 0 1 1 0,
        (body 0 1 (- 3) 3 3 1)
          \<lparr>vx := - 9 / 4, vy := 0, vz := 0, x := 0, y := 3 / 4, z := 0, m := 4,
           r := 36 powr (1 / 3), last_collision := 0\<rparr>]
   \<and> r (particles (merge example_state (init_collision_params\<lparr>target := 1, projectile := 0\<rparr>)) ! 1)
     = 3 * (4 / 3) powr (1 / 3)"
proof -
  let ?ps = "init_collision_params\<lparr>target := 1, projectile := 0\<rparr>"
  have f: "target ?ps = 1" "projectile ?ps = 0" by (simp_all add: init_collision_params_def)
  have P: "particles example_state = [body 0 0 0 1 1 0, body 0 1 (- 3) 3 3 1]"
    and st: "t example_state = 0"
    by (simp_all add: example_state_def)
  have h: "target ?ps < length (particles example_state)" "target ?ps \<noteq> projectile ?ps"
    "0 < m (particles example_state ! target ?ps)"
    "0 < m (particles example_state ! projectile ?ps)"
    "0 < r (particles example_state ! target ?ps)"
    unfolding f P by (simp_all add: body_def)
  note me = merge_effect[OF h]
  have a: "particles (merge example_state ?ps)
     = [body 0 0 0 1 1 0,
        (body 0 1 (- 3) 3 3 1)
          \<lparr>vx := - 9 / 4, vy := 0, vz := 0, x := 0, y := 3 / 4, z := 0, m := 4,
           r := 36 powr (1 / 3), last_collision := 0\<rparr>]"
    using me[THEN conjunct1] unfolding f P st Let_def by (simp add: body_def)
  have b: "r (particles (merge example_state ?ps) ! 1) = 3 * (4 / 3) powr (1 / 3)"
    using me[THEN conjunct2, THEN conjunct1] unfolding f P by (simp add: body_def)
  have c: "(1::nat) < length (particles example_state)" "(1::nat) \<noteq> 0"
    "0 < m (particles example_state ! 1)" "0 < m (particles example_state ! 0)"
    "0 < r (particles example_state ! 1)"
    unfolding P by (simp_all add: body_def)
  show ?thesis by (intro conjI) (fact c a b)+
qed

section \<open>The guards of the resolver\<close>

text \<open>
  C9. When the first index of the event is less than the second, the resolver returns
  the code 0 and the state it was given, whatever the bodies are.
\<close>

theorem resolve_skips_ascending_pair:
  assumes "p1 c < p2 c"
  shows "reb_collision_resolve_fragment v hs u w c = Inr (w, 0)"
  using assms by (simp add: reb_collision_resolve_fragment_def)

theorem resolve_skips_ascending_pair_witness:
  "p1 \<lparr>p1 = 0, p2 = 1\<rparr> < p2 \<lparr>p1 = 0, p2 = 1\<rparr> \<and>
   reb_collision_resolve_fragment Fragmentation no_bounce 0 example_state \<lparr>p1 = 0, p2 = 1\<rparr>
   = Inr (example_state, 0)"
  using resolve_skips_ascending_pair[of "\<lparr>p1 = 0, p2 = 1\<rparr>" Fragmentation no_bounce 0 example_state]
  by simp

section \<open>Conservation of the centre of mass\<close>

text \<open>
  C1. The claim fails on the code. For the pair of \<open>grain_state\<close> (total mass
  \<open>3.5e-8\<close>, centre of mass at \<open>x = 0\<close>) the resolver of the fragmentation copy
  keeps the target in slot 1 and adds one fragment, \<open>FRAG1\<close>, in slot 2. After the
  correction pass the mass-weighted sum of the \<open>x\<close> coordinates of the target and the
  fragment is \<open>-1.0752e-7\<close>, while the total mass times the \<open>x\<close> coordinate of the
  centre of mass of the pair is \<open>0\<close>: the pass scales the offset by each body's share
  of the mass and so removes only a part of the discrepancy.
\<close>

theorem momentum_correction_misses_centre_of_mass:
  "\<exists>w'. reb_collision_resolve_fragment Fragmentation hs u grain_state impact_event
           = Inr (w', 2)
       \<and> map hash (particles w') = [NAMED 0, NAMED 1, FRAG 1]
       \<and> msum x [particles w' ! 1, particles w' ! 2] = - 1.0752 / 10 ^ 7
       \<and> (m (particles grain_state ! 1) + m (particles grain_state ! 0))
           * x (reb_particle_com_of_pair (particles grain_state ! 1) (particles grain_state ! 0))
         = 0"
proof -
  from grain_resolve[of hs u] obtain w' where
    r: "reb_collision_resolve_fragment Fragmentation hs u grain_state impact_event = Inr (w', 2)"
    and ms: "map m (particles w') = [7 / 10 ^ 9, 2.1 / 10 ^ 8, 1.4 / 10 ^ 8]"
    and xs: "map x (particles w') = [0, 3.84, - 13.44]"
    and hs: "map hash (particles w') = [NAMED 0, NAMED 1, FRAG 1]"
    by auto
  have "length (map m (particles w')) = 3" unfolding ms by simp
  then have len: "length (particles w') = 3" by simp
  have "m (particles w' ! 1) = map m (particles w') ! 1" "m (particles w' ! 2) = map m (particles w') ! 2"
    "x (particles w' ! 1) = map x (particles w') ! 1" "x (particles w' ! 2) = map x (particles w') ! 2"
    using len by simp_all
  then have v: "m (particles w' ! 1) = 2.1 / 10 ^ 8" "m (particles w' ! 2) = 1.4 / 10 ^ 8"
    "x (particles w' ! 1) = 3.84" "x (particles w' ! 2) = - 13.44"
    unfolding ms xs by simp_all
  have s: "msum x [particles w' ! 1, particles w' ! 2] = - 1.0752 / 10 ^ 7"
    unfolding msum_def list.map v by simp
  have c: "(m (particles grain_state ! 1) + m (particles grain_state ! 0))
           * x (reb_particle_com_of_pair (particles grain_state ! 1) (particles grain_state ! 0))
         = 0"
    by (simp add: grain_state_def impact_state_def body_def reb_particle_com_of_pair_def)
  from r hs s c show ?thesis by (intro exI[of _ w']) simp
qed

section \<open>Conservation of mass\<close>

text \<open>
  C2. The claim fails on the fragmentation copy. For the pair of \<open>dust_state\<close> (masses
  \<open>1.68e-8\<close> and \<open>4.2e-9\<close>, together \<open>2.1e-8\<close>) the resolver returns the code 2,
  which tells the host to discard the lighter body in slot 0; it adds no body, and the
  target in slot 1 is left with the mass \<open>1.4e-8\<close>. The largest remnant was raised to
  the minimum fragment mass, what is left is half a minimum fragment mass, and the
  number of fragments is 0.
\<close>

theorem mass_lost_without_fragments:
  "\<exists>w'. reb_collision_resolve_fragment Fragmentation hs u dust_state impact_event
           = Inr (w', 2)
       \<and> map m (particles w') = [4.2 / 10 ^ 9, 1.4 / 10 ^ 8]
       \<and> m (particles dust_state ! 1) + m (particles dust_state ! 0) = 2.1 / 10 ^ 8"
proof -
  from dust_resolve(1)[of hs u] obtain w' where
    "reb_collision_resolve_fragment Fragmentation hs u dust_state impact_event = Inr (w', 2)"
    "map m (particles w') = [4.2 / 10 ^ 9, 1.4 / 10 ^ 8]"
    by auto
  moreover have "m (particles dust_state ! 1) + m (particles dust_state ! 0) = 2.1 / 10 ^ 8"
    by (simp add: dust_state_def impact_state_def body_def)
  ultimately show ?thesis by (intro exI[of _ w']) simp
qed

section \<open>The fatal checks\<close>

text \<open>
  C4. The claim fails on the fragmentation copy. On the event of \<open>dust_state\<close> the
  number of fragments that \<open>add_fragments\<close> computes is 0. The shearing-sheet copy
  stops at its assertion on that number; the fragmentation copy has no such check: it
  returns the code 2 and a state with the two bodies it was given and the fragment
  counter unchanged.
\<close>

theorem fragmentation_copy_runs_past_the_checks:
  "(\<exists>w'. reb_collision_resolve_fragment Fragmentation hs u dust_state impact_event
            = Inr (w', 2)
        \<and> length (particles w') = 2 \<and> tot_no_frags w' = 0)
   \<and> reb_collision_resolve_fragment Shearing_Sheet hs u dust_state impact_event
       = Inl Assert_no_frags"
proof -
  from dust_resolve(1)[of hs u] obtain w' where
    r: "reb_collision_resolve_fragment Fragmentation hs u dust_state impact_event = Inr (w', 2)"
    and ms: "map m (particles w') = [4.2 / 10 ^ 9, 1.4 / 10 ^ 8]"
    and tot: "tot_no_frags w' = 0"
    by auto
  have "length (map m (particles w')) = 2" unfolding ms by simp
  then have "length (particles w') = 2" by simp
  with r tot dust_resolve(2)[of hs u] show ?thesis by auto
qed

section \<open>The guard against a second resolution\<close>




section \<open>The fragment counter\<close>

text \<open>
  C8. The claim fails on the fragmentation copy. For the pair of \<open>heavy_state\<close> (masses
  10 and 40) the mass left for the fragments divided by the minimum fragment mass is
  more than \<open>2^31 - 1\<close>, the conversion to \<^verbatim>\<open>int\<close> gives \<open>INT_MIN\<close>, no body is
  added, and \<^verbatim>\<open>tot_no_frags += big_frags+no_frags\<close> takes the counter from 0 to
  \<open>-2147483648\<close>; the resolver returns the code 2. The shearing-sheet copy stops
  at its assertion on the number of fragments.
\<close>

theorem fragment_counter_decreases:
  "(\<exists>w'. reb_collision_resolve_fragment Fragmentation hs u heavy_state impact_event
            = Inr (w', 2)
        \<and> tot_no_frags heavy_state = 0 \<and> tot_no_frags w' = - 2147483648
        \<and> length (particles w') = 2)
   \<and> reb_collision_resolve_fragment Shearing_Sheet hs u heavy_state impact_event
       = Inl Assert_no_frags"
proof -
  have "tot_no_frags heavy_state = 0" by (simp add: heavy_state_def impact_state_def)
  with heavy_resolve[of hs u] show ?thesis by auto
qed

section \<open>The ejection speed\<close>


text \<open>
  The speed of the new bodies when the geometry is not degenerate. For the parameters
  the builder produces from two bodies of positive mass and radius, whatever \<open>Mlr\<close>,
  \<open>Mslr\<close> and the outcome code are set to afterwards: the speed that
  \<open>add_fragments\<close> computes is \<open>sqrt 0.35 * V_esc\<close>, which is positive, and every
  new body whose coordinates are finite is given a velocity that differs from the
  velocity of the centre of mass by a vector of exactly that length.
\<close>

theorem new_bodies_speed:
  assumes ctx: "collision_context u w i j = Inr ps"
    and pos: "0 < G w" "0 < m (particles w ! i)" "0 < m (particles w ! j)"
      "0 < r (particles w ! i)" "0 < r (particles w ! j)"
    and ps': "ps' = ps\<lparr>Mlr := a, Mslr := c, collision_type := k\<rparr>"
    and np: "new_particles w ps' = Some nps" and q: "q \<in> set nps"
  shows "sqrt ((vx q - vx (com_of w ps')) ^ 2 + (vy q - vy (com_of w ps')) ^ 2
               + (vz q - vz (com_of w ps')) ^ 2)
         = sqrt 0.35 * V_esc ps"
    and "0 < sqrt 0.35 * V_esc ps"
proof -
  let ?fv = "sqrt 0.35 * V_esc ps"
  let ?com = "com_of w ps'"
  note ev = ejection_speed_value[OF ctx pos ps']
  show fpos: "0 < ?fv" by (rule ev(2))
  have geo: "Vix ps' = Vix ps" "Viy ps' = Viy ps" "Viz ps' = Viz ps" "vrel ps' = vrel ps"
    using ps' by simp_all
  have vr: "vrel ps' = sqrt ((Vix ps') ^ 2 + (Viy ps') ^ 2 + (Viz ps') ^ 2)"
    unfolding geo by (rule context_vrel[OF ctx])
  from np q have ne: "nps \<noteq> []" by auto
  from np ne obtain ux uy uz where u: "unit_vi ps' = Some (ux, uy, uz)"
    unfolding new_particles_def Let_def ev(1)
    by (auto split: if_splits option.splits)
  note ul = unit_vi_length[OF u vr]
  define slr where "slr = Slr1 w ps' ?com (density_of (particles w ! target ps')) ?fv (ux, uy, uz)"
  have slr_speed: "(vx slr - vx ?com) ^ 2 + (vy slr - vy ?com) ^ 2 + (vz slr - vz ?com) ^ 2
                   = ?fv ^ 2"
  proof -
    have "(vx slr - vx ?com) ^ 2 + (vy slr - vy ?com) ^ 2 + (vz slr - vz ?com) ^ 2
          = ?fv ^ 2 * (ux ^ 2 + uy ^ 2 + uz ^ 2)"
      unfolding slr_def Slr1_def by (simp add: power_mult_distrib distrib_left)
    then show ?thesis unfolding ul by simp
  qed
  have frag_speed: "(vx f - vx ?com) ^ 2 + (vy f - vy ?com) ^ 2 + (vz f - vz ?com) ^ 2 = ?fv ^ 2"
    if o: "in_plane ps' = Some (ox, oy, oz)"
      and f: "f = fragment w ps' ?com rho ?fv (ux, uy, uz) (ox, oy, oz) fm th nb n"
    for f ox oy oz rho fm th nb n
  proof -
    note ol = in_plane_length[OF o u]
    show ?thesis
      unfolding f fragment_def Let_def
      using circle_speed[OF ul ol, of ?fv "th * of_int (wrap_int (n - nb + 1))"]
      by simp
  qed
  have "(vx q - vx ?com) ^ 2 + (vy q - vy ?com) ^ 2 + (vz q - vz ?com) ^ 2 = ?fv ^ 2"
  proof (cases "q = slr")
    case True
    then show ?thesis using slr_speed by simp
  next
    case False
    from np q False obtain ox oy oz n where
      o: "in_plane ps' = Some (ox, oy, oz)"
      and f: "q = fragment w ps' ?com (density_of (particles w ! target ps')) ?fv (ux, uy, uz)
                    (ox, oy, oz) (frag_mass_of w ps')
                    ((2 * pi) / of_int (wrap_int (no_frags_of w ps' + big_frags_of ps')))
                    (wrap_int (tot_no_frags w + big_frags_of ps' + 1)) n"
      unfolding new_particles_def Let_def ev(1) u slr_def
      by (auto split: if_splits option.splits)
    from frag_speed[OF o f] show ?thesis .
  qed
  then have "sqrt ((vx q - vx ?com) ^ 2 + (vy q - vy ?com) ^ 2 + (vz q - vz ?com) ^ 2)
             = sqrt (?fv ^ 2)"
    by simp
  also have "\<dots> = ?fv" using fpos by simp
  finally show "sqrt ((vx q - vx ?com) ^ 2 + (vy q - vy ?com) ^ 2 + (vz q - vz ?com) ^ 2)
                = ?fv" .
qed

section \<open>Further properties of the fragment synthesizer\<close>

lemma new_particles_masses:
  assumes "new_particles w ps = Some nps"
  shows "map m nps
         = (if big_frags_of ps = 1 then [Mslr ps] else [])
           @ map (\<lambda>i. frag_mass_of w ps)
               [wrap_int (tot_no_frags w + big_frags_of ps + 1)
                .. wrap_int (wrap_int (tot_no_frags w + big_frags_of ps + 1) + no_frags_of w ps) - 1]"
  using assms unfolding new_particles_def Let_def
  by (auto split: if_splits option.splits simp: comp_def)

text \<open>
  Mass is conserved by \<open>add_fragments\<close> whenever it returns with at least one
  fragment (which the assertions of the shearing-sheet copy guarantee) and the fragment
  counter stays in the range of an \<^verbatim>\<open>int\<close>: the mass of the target afterwards plus the
  masses of the bodies appended to the array is the total mass of the pair before.
\<close>

theorem add_fragments_conserves_mass:
  assumes "add_fragments v w ps = Inr (w', ps')"
    and "target ps < length (particles w)"
    and "v = Shearing_Sheet \<or> 1 \<le> no_frags_of w ps"
    and "0 \<le> tot_no_frags w" and "tot_no_frags w + no_frags_of w ps < 2147483646"
  shows "m (particles w' ! target ps)
           + sum_list (map m (drop (length (particles w)) (particles w')))
         = m (particles w ! target ps) + m (particles w ! projectile ps)"
proof -
  let ?L = "length (particles w)"
  let ?old = "(particles w)[target ps := new_target w ps]"
  let ?nf = "no_frags_of w ps"
  let ?nb = "tot_no_frags w + big_frags_of ps + 1"
  have n: "1 \<le> ?nf"
    using assms(1,3) add_fragments_guards(3)[of w ps w' ps'] by auto
  have big: "big_frags_of ps = 0 \<or> big_frags_of ps = 1" by (simp add: big_frags_of_def)
  have w1: "wrap_int ?nb = ?nb"
    using big assms(4,5) n by (intro wrap_int_id) (auto simp: INT_MIN_def INT_MAX_def)
  have w2: "wrap_int (?nb + ?nf) = ?nb + ?nf"
    using big assms(4,5) n by (intro wrap_int_id) (auto simp: INT_MIN_def INT_MAX_def)
  from add_fragments_result(7)[OF assms(1)] obtain nps where
    np: "new_particles w ps = Some nps"
    and ms: "map m (particles w') = map m (?old @ nps)"
    by blast
  have "length [?nb .. ?nb + ?nf - 1] = nat ?nf" by simp
  then have "sum_list (map (\<lambda>i. frag_mass_of w ps) [?nb .. ?nb + ?nf - 1])
             = of_nat (nat ?nf) * frag_mass_of w ps"
    by (simp add: sum_list_triv)
  then have new: "sum_list (map m nps)
             = (if Mslr ps > 0 then Mslr ps else 0) + of_nat (nat ?nf) * frag_mass_of w ps"
    unfolding new_particles_masses[OF np] w1 w2 by (simp add: big_frags_of_def)
  from ms have "length (particles w') = length (?old @ nps)"
    by (metis length_map)
  with assms(2) have lt: "target ps < length (particles w')" by simp
  have "m (particles w' ! target ps) = map m (particles w') ! target ps"
    using lt by simp
  also have "\<dots> = target_mass_of w ps"
    unfolding ms using assms(2) by (simp add: nth_append)
  finally have tg: "m (particles w' ! target ps) = target_mass_of w ps" .
  have "map m (drop ?L (particles w')) = drop ?L (map m (particles w'))"
    by (simp add: drop_map)
  also have "\<dots> = map m nps" unfolding ms by simp
  finally have dr: "sum_list (map m (drop ?L (particles w'))) = sum_list (map m nps)" by simp
  have "target_mass_of w ps + of_nat (nat ?nf) * frag_mass_of w ps
        + (if Mslr ps > 0 then Mslr ps else 0)
        = initial_mass_of w ps"
    unfolding partition_mass[OF n] by (simp add: remaining_mass_of_def)
  then show ?thesis
    unfolding tg dr new by (simp add: initial_mass_of_def)
qed

lemma grain_new_particles:
  assumes f: "target ps1 = 1" "projectile ps1 = 0" "Mslr ps1 = 0" "Mlr ps1 = 1.4 / 10 ^ 8"
    and g: "Vix ps1 = - 20000" "vrel ps1 = 20000" "separation_distance ps1 = 16"
    and h: "Viy ps1 = 0" "Viz ps1 = 0" "dx ps1 = 0" "dy ps1 = 1" "dz ps1 = 0"
    and e: "(V_esc ps1) ^ 2 = (7 / 10 ^ 9 + 4 * (7 / 10 ^ 9)) / 2"
  shows "\<exists>F. new_particles grain_state ps1 = Some [F]" and "no_frags_of grain_state ps1 = 1"
proof -
  note bl = impact_blocks[where mp = "7 / 10 ^ 9", OF f(1-3), folded grain_state_def]
  have bf: "big_frags_of ps1 = 0" by (simp add: big_frags_of_def f)
  show nf: "no_frags_of grain_state ps1 = 1" unfolding bl(3) f(4) by (rule trunc_three_halves)
  have tot: "tot_no_frags grain_state = 0" "G grain_state = 1"
    and P: "particles grain_state
           = [body 0 0 0 (7 / 10 ^ 9) 1 0, body 0 1 (- 20000) (4 * (7 / 10 ^ 9)) 3 1]"
    by (simp_all add: grain_state_def impact_state_def)
  have rt: "r (particles grain_state ! target ps1) + r (particles grain_state ! projectile ps1) = 4"
    unfolding P by (simp add: f body_def)
  have "\<exists>fv. fragment_velocity grain_state ps1 (initial_mass_of grain_state ps1) 4 = Some fv"
    unfolding fragment_velocity_def Let_def e bl(1) tot g by simp
  then obtain fv where
    fv: "fragment_velocity grain_state ps1 (initial_mass_of grain_state ps1) 4 = Some fv" ..
  have u: "unit_vi ps1 = Some (- 1, 0, 0)" unfolding unit_vi_def g h by simp
  have pn: "plane_normal ps1 = Some (0, 0, - 1)"
    unfolding plane_normal_def Let_def g h get_mag_def by (simp add: sqrt_4e8_sq)
  have ip: "in_plane ps1 = Some (0, 1, 0)"
    unfolding in_plane_def pn Let_def g h get_mag_def by (simp add: sqrt_4e8_sq)
  show "\<exists>F. new_particles grain_state ps1 = Some [F]"
    unfolding new_particles_def Let_def nf bf tot rt fv u ip by simp
qed

theorem add_fragments_conserves_mass_witness:
  "\<exists>w' ps'. add_fragments Fragmentation grain_state
       (init_collision_params\<lparr>target := 1, projectile := 0, Mlr := 1.4 / 10 ^ 8,
          Vix := - 20000, vrel := 20000, separation_distance := 16, dy := 1,
          V_esc := sqrt (1.75 / 10 ^ 8)\<rparr>) = Inr (w', ps')
     \<and> (1::nat) < length (particles grain_state)
     \<and> 1 \<le> no_frags_of grain_state
          (init_collision_params\<lparr>target := 1, projectile := 0, Mlr := 1.4 / 10 ^ 8,
             Vix := - 20000, vrel := 20000, separation_distance := 16, dy := 1,
             V_esc := sqrt (1.75 / 10 ^ 8)\<rparr>)
     \<and> 0 \<le> tot_no_frags grain_state
     \<and> m (particles w' ! 1) + sum_list (map m (drop 2 (particles w'))) = 3.5 / 10 ^ 8"
proof -
  let ?ps = "init_collision_params\<lparr>target := 1, projectile := 0, Mlr := 1.4 / 10 ^ 8,
          Vix := - 20000, vrel := 20000, separation_distance := 16, dy := 1,
          V_esc := sqrt (1.75 / 10 ^ 8)\<rparr>"
  have f: "target ?ps = 1" "projectile ?ps = 0" "Mslr ?ps = 0" "Mlr ?ps = 1.4 / 10 ^ 8"
    "Vix ?ps = - 20000" "vrel ?ps = 20000" "separation_distance ?ps = 16"
    "Viy ?ps = 0" "Viz ?ps = 0" "dx ?ps = 0" "dy ?ps = 1" "dz ?ps = 0"
    "(V_esc ?ps) ^ 2 = (7 / 10 ^ 9 + 4 * (7 / 10 ^ 9)) / 2"
    by (simp_all add: init_collision_params_def)
  from grain_add_fragments[OF f] obtain w' ps' where
    r: "add_fragments Fragmentation grain_state ?ps = Inr (w', ps')"
    by auto
  have P: "particles grain_state
           = [body 0 0 0 (7 / 10 ^ 9) 1 0, body 0 1 (- 20000) (4 * (7 / 10 ^ 9)) 3 1]"
    and tot: "tot_no_frags grain_state = 0"
    by (simp_all add: grain_state_def impact_state_def)
  have len: "target ?ps < length (particles grain_state)" unfolding f P by simp
  have nf: "no_frags_of grain_state ?ps = 1" by (rule grain_new_particles(2)[OF f])
  have d: "Fragmentation = Shearing_Sheet \<or> 1 \<le> no_frags_of grain_state ?ps"
    unfolding nf by simp
  have o: "0 \<le> tot_no_frags grain_state"
    "tot_no_frags grain_state + no_frags_of grain_state ?ps < 2147483646"
    unfolding nf tot by simp_all
  have L: "length (particles grain_state) = 2" unfolding P by simp
  have M: "m (particles grain_state ! 1) + m (particles grain_state ! 0) = 3.5 / 10 ^ 8"
    unfolding P by (simp add: body_def)
  have c: "m (particles w' ! 1) + sum_list (map m (drop 2 (particles w'))) = 3.5 / 10 ^ 8"
    using add_fragments_conserves_mass[OF r len d o] unfolding f L M .
  have l1: "(1::nat) < length (particles grain_state)" unfolding L by simp
  have n1: "1 \<le> no_frags_of grain_state ?ps" unfolding nf by simp
  from r l1 n1 o(1) c show ?thesis by (intro exI[of _ w'] exI[of _ ps'] conjI)
qed

theorem new_bodies_speed_witness:
  "\<exists>ps F. collision_context 0 grain_state 1 0 = Inr ps
     \<and> 0 < G grain_state
     \<and> 0 < m (particles grain_state ! 1) \<and> 0 < m (particles grain_state ! 0)
     \<and> 0 < r (particles grain_state ! 1) \<and> 0 < r (particles grain_state ! 0)
     \<and> new_particles grain_state (ps\<lparr>Mlr := 1.4 / 10 ^ 8, Mslr := 0, collision_type := 4\<rparr>)
         = Some [F]
     \<and> sqrt ((vx F - (- 16000)) ^ 2 + (vy F - 0) ^ 2 + (vz F - 0) ^ 2)
         = sqrt 0.35 * V_esc ps"
proof -
  have mp: "(0::real) < 7 / 10 ^ 9" "(0::real) < 4 * (7 / 10 ^ 9)" by simp_all
  from impact_context[OF mp, of 0, folded grain_state_def]
  obtain ps where ctx: "collision_context 0 grain_state 1 0 = Inr ps"
    and f: "target ps = 1" "projectile ps = 0" "Mslr ps = 0"
      "Vix ps = - 20000" "vrel ps = 20000" "separation_distance ps = 16"
      "Viy ps = 0" "Viz ps = 0" "dx ps = 0" "dy ps = 1" "dz ps = 0"
    by auto
  note V = impact_V_esc(1)[OF mp, folded grain_state_def, OF ctx]
  let ?ps = "ps\<lparr>Mlr := 1.4 / 10 ^ 8, Mslr := 0, collision_type := 4\<rparr>"
  have f4: "target ?ps = 1" "projectile ?ps = 0" "Mslr ?ps = 0" "Mlr ?ps = 1.4 / 10 ^ 8"
    "Vix ?ps = - 20000" "vrel ?ps = 20000" "separation_distance ?ps = 16"
    "Viy ?ps = 0" "Viz ?ps = 0" "dx ?ps = 0" "dy ?ps = 1" "dz ?ps = 0"
    "(V_esc ?ps) ^ 2 = (7 / 10 ^ 9 + 4 * (7 / 10 ^ 9)) / 2"
    using f V by simp_all
  from grain_new_particles(1)[OF f4] obtain F where
    np: "new_particles grain_state ?ps = Some [F]" ..
  have P: "particles grain_state
           = [body 0 0 0 (7 / 10 ^ 9) 1 0, body 0 1 (- 20000) (4 * (7 / 10 ^ 9)) 3 1]"
    and G1: "G grain_state = 1"
    by (simp_all add: grain_state_def impact_state_def)
  have pos: "0 < G grain_state"
    "0 < m (particles grain_state ! 1)" "0 < m (particles grain_state ! 0)"
    "0 < r (particles grain_state ! 1)" "0 < r (particles grain_state ! 0)"
    unfolding P G1 by (simp_all add: body_def)
  have com: "vx (com_of grain_state ?ps) = - 16000" "vy (com_of grain_state ?ps) = 0"
    "vz (com_of grain_state ?ps) = 0"
    unfolding com_of_def f4 P by (simp_all add: reb_particle_com_of_pair_def body_def)
  have "F \<in> set [F]" by simp
  from new_bodies_speed(1)[OF ctx pos refl np this]
  have s: "sqrt ((vx F - (- 16000)) ^ 2 + (vy F - 0) ^ 2 + (vz F - 0) ^ 2)
           = sqrt 0.35 * V_esc ps"
    unfolding com .
  from ctx pos np s show ?thesis by (intro exI[of _ ps] exI[of _ F] conjI)
qed

text \<open>
  The three assertions of the shearing-sheet copy: \<open>add_fragments\<close> stops the run
  when the minimum fragment mass is not positive, when the mass left for the fragments
  is not positive, and when the number of fragments is not positive or is at least
  \<open>10^6\<close>.
\<close>

theorem shearing_sheet_assertions:
  "(min_frag_mass w \<le> 0 \<longrightarrow> add_fragments Shearing_Sheet w ps = Inl Assert_min_frag_mass)
   \<and> (0 < min_frag_mass w \<and> remaining_mass_of w ps \<le> 0
        \<longrightarrow> add_fragments Shearing_Sheet w ps = Inl Assert_remaining_mass)
   \<and> (0 < min_frag_mass w \<and> 0 < remaining_mass_of w ps
        \<and> (no_frags_of w ps \<le> 0 \<or> 1000000 \<le> no_frags_of w ps)
        \<longrightarrow> add_fragments Shearing_Sheet w ps = Inl Assert_no_frags)"
  by (auto simp: add_fragments_def)

theorem shearing_sheet_assertions_witness:
  "(min_frag_mass (example_state\<lparr>min_frag_mass := 0\<rparr>) \<le> 0
    \<and> add_fragments Shearing_Sheet (example_state\<lparr>min_frag_mass := 0\<rparr>)
          (init_collision_params\<lparr>target := 1\<rparr>) = Inl Assert_min_frag_mass)
   \<and> (0 < min_frag_mass example_state
      \<and> remaining_mass_of example_state (init_collision_params\<lparr>target := 1, Mlr := 4\<rparr>) \<le> 0
      \<and> add_fragments Shearing_Sheet example_state (init_collision_params\<lparr>target := 1, Mlr := 4\<rparr>)
          = Inl Assert_remaining_mass)
   \<and> (0 < min_frag_mass example_state
      \<and> 0 < remaining_mass_of example_state (init_collision_params\<lparr>target := 1, Mlr := 3.5\<rparr>)
      \<and> no_frags_of example_state (init_collision_params\<lparr>target := 1, Mlr := 3.5\<rparr>) \<le> 0
      \<and> add_fragments Shearing_Sheet example_state (init_collision_params\<lparr>target := 1, Mlr := 3.5\<rparr>)
          = Inl Assert_no_frags)"
proof -
  have a: "min_frag_mass (example_state\<lparr>min_frag_mass := 0\<rparr>) \<le> 0" by simp
  have b: "0 < min_frag_mass example_state"
    "remaining_mass_of example_state (init_collision_params\<lparr>target := 1, Mlr := 4\<rparr>) \<le> 0"
    by (simp_all add: example_state_def remaining_mass_of_def initial_mass_of_def
        init_collision_params_def body_def)
  have c: "0 < remaining_mass_of example_state (init_collision_params\<lparr>target := 1, Mlr := 3.5\<rparr>)"
    "no_frags_of example_state (init_collision_params\<lparr>target := 1, Mlr := 3.5\<rparr>) \<le> 0"
    by (simp_all add: example_state_def remaining_mass_of_def initial_mass_of_def
        init_collision_params_def body_def no_frags_of_def double_to_int_def trunc_def
        INT_MIN_def INT_MAX_def)
  from shearing_sheet_assertions[of "example_state\<lparr>min_frag_mass := 0\<rparr>"
      "init_collision_params\<lparr>target := 1\<rparr>"] a
  have a': "add_fragments Shearing_Sheet (example_state\<lparr>min_frag_mass := 0\<rparr>)
          (init_collision_params\<lparr>target := 1\<rparr>) = Inl Assert_min_frag_mass"
    by blast
  from shearing_sheet_assertions[of example_state "init_collision_params\<lparr>target := 1, Mlr := 4\<rparr>"] b
  have b': "add_fragments Shearing_Sheet example_state (init_collision_params\<lparr>target := 1, Mlr := 4\<rparr>)
          = Inl Assert_remaining_mass"
    by blast
  from shearing_sheet_assertions[of example_state "init_collision_params\<lparr>target := 1, Mlr := 3.5\<rparr>"]
    b(1) c
  have c': "add_fragments Shearing_Sheet example_state (init_collision_params\<lparr>target := 1, Mlr := 3.5\<rparr>)
          = Inl Assert_no_frags"
    by blast
  from a a' b b' c c' show ?thesis by blast
qed

text \<open>
  The abort on an impact parameter that is not a number: for two bodies with the same
  position and the same velocity, whose times of last collision differ from the current
  time and of which the first named has the larger or equal index, either copy of the
  resolver stops with \<open>NaN_b\<close>.
\<close>

theorem coincident_bodies_abort:
  assumes "last_collision (particles w ! p1 c) \<noteq> t w"
    and "last_collision (particles w ! p2 c) \<noteq> t w"
    and "p2 c \<le> p1 c"
    and "x (particles w ! p1 c) = x (particles w ! p2 c)"
    and "y (particles w ! p1 c) = y (particles w ! p2 c)"
    and "z (particles w ! p1 c) = z (particles w ! p2 c)"
    and "vx (particles w ! p1 c) = vx (particles w ! p2 c)"
    and "vy (particles w ! p1 c) = vy (particles w ! p2 c)"
    and "vz (particles w ! p1 c) = vz (particles w ! p2 c)"
  shows "reb_collision_resolve_fragment v hs u w c = Inl NaN_b"
proof -
  have ctx: "collision_context u w i j = Inl NaN_b"
    if "(i = p1 c \<and> j = p2 c) \<or> (i = p2 c \<and> j = p1 c)" for i j
    using that assms(4-9)
    by (auto simp: collision_context_def Let_def make_vector_def get_dot_def v2imp_of_def
        b_is_nan_def)
  show ?thesis
    using assms(1-3) ctx[of "p1 c" "p2 c"] ctx[of "p2 c" "p1 c"]
    by (simp add: reb_collision_resolve_fragment_def Let_def)
qed

theorem coincident_bodies_abort_witness:
  "reb_collision_resolve_fragment Shearing_Sheet no_bounce 0
     (example_state\<lparr>particles := [body 0 0 0 1 1 0, body 0 0 0 3 3 1]\<rparr>) impact_event
   = Inl NaN_b"
  by (rule coincident_bodies_abort)
     (simp_all add: example_state_def impact_event_def body_def)

end
